theory Spec2Isabelle
  imports Main
begin

section \<open>Values and failures\<close>

text \<open>
  JavaScript values as far as the generator classes inspect them. Numbers are the
  integers (request parameters, identifiers, status codes) and \<open>NaN\<close>; fractions and
  infinities are outside this model. \<open>JUndefined\<close> is the value of a missing property.
\<close>

datatype json =
    JUndefined
  | JNull
  | JBool bool
  | JNum int
  | JNaN
  | JStr string
  | JArr "json list"
  | JObj "(string \<times> json) list"

text \<open>JavaScript truthiness, as used by \<open>!x\<close>, \<open>x || y\<close> and \<open>x ? a : b\<close>.\<close>

fun truthy :: "json \<Rightarrow> bool" where
  "truthy JUndefined = False"
| "truthy JNull = False"
| "truthy (JBool b) = b"
| "truthy (JNum n) = (n \<noteq> 0)"
| "truthy JNaN = False"
| "truthy (JStr s) = (s \<noteq> [])"
| "truthy (JArr xs) = True"
| "truthy (JObj kvs) = True"

text \<open>Property read \<open>o[k]\<close>: \<open>undefined\<close> when the key is absent or \<open>o\<close> is no object.\<close>

fun get_prop :: "json \<Rightarrow> string \<Rightarrow> json" where
  "get_prop (JObj kvs) k = (case map_of kvs k of Some v \<Rightarrow> v | None \<Rightarrow> JUndefined)"
| "get_prop _ k = JUndefined"

text \<open>
  Property write on an association list: an existing key keeps its position, a new key
  goes last (the property order of a JavaScript object).
\<close>

fun set_key :: "(string \<times> json) list \<Rightarrow> string \<Rightarrow> json \<Rightarrow> (string \<times> json) list" where
  "set_key [] k v = [(k, v)]"
| "set_key ((k', v') # kvs) k v =
     (if k' = k then (k, v) # kvs else (k', v') # set_key kvs k v)"

text \<open>Object spread \<open>{...a, ...b}\<close>.\<close>

definition spread :: "(string \<times> json) list \<Rightarrow> (string \<times> json) list \<Rightarrow> (string \<times> json) list" where
  "spread a b = foldl (\<lambda>acc (k, v). set_key acc k v) a b"

text \<open>
  What a \<open>throw\<close> carries: an \<open>ApplicationError\<close> (code, error, message, internalError)
  or any other error object (a database error, a \<open>TypeError\<close>, ...).
\<close>

datatype failure =
    ApplicationError int string string "failure option"
  | OtherError string

text \<open>\<open>IApplicationErrorConstructorArguments\<close>, with the message already rendered.\<close>

record description =
  code :: int
  error :: string
  message :: string

text \<open>
  The constructor of \<open>ApplicationError\<close>: when the internal error is itself an
  \<open>ApplicationError\<close> the constructor returns it, so \<open>new ApplicationError(d, err)\<close>
  evaluates to \<open>err\<close>.
\<close>

definition new_ApplicationError :: "description \<Rightarrow> failure option \<Rightarrow> failure" where
  "new_ApplicationError d internalError =
     (case internalError of
        Some (ApplicationError c e m i) \<Rightarrow> ApplicationError c e m i
      | _ \<Rightarrow> ApplicationError (code d) (error d) (message d) internalError)"

fun isApplicationError :: "failure \<Rightarrow> bool" where
  "isApplicationError (ApplicationError c e m i) = True"
| "isApplicationError (OtherError s) = False"

subsection \<open>The client error table\<close>

definition UNABLE_TO_CREATE :: description where
  "UNABLE_TO_CREATE = \<lparr>code = 400, error = ''Bad Request'', message = ''Item could not be created.''\<rparr>"

definition UNABLE_TO_DELETE :: description where
  "UNABLE_TO_DELETE = \<lparr>code = 400, error = ''Bad Request'', message = ''Item could not be deleted.''\<rparr>"

definition UNABLE_TO_GET :: description where
  "UNABLE_TO_GET = \<lparr>code = 400, error = ''Bad Request'', message = ''Item could not be retrieved.''\<rparr>"

definition UNABLE_TO_LIST :: description where
  "UNABLE_TO_LIST = \<lparr>code = 400, error = ''Bad Request'', message = ''Items could not be listed.''\<rparr>"

definition UNABLE_TO_UPDATE :: description where
  "UNABLE_TO_UPDATE = \<lparr>code = 400, error = ''Bad Request'', message = ''Item could not be updated.''\<rparr>"

definition ITEM_NOT_FOUND :: description where
  "ITEM_NOT_FOUND = \<lparr>code = 404, error = ''Not found'',
     message = ''The item does not exist or you do not have access.''\<rparr>"

definition NO_PERMISSIONS :: description where
  "NO_PERMISSIONS = \<lparr>code = 403, error = ''No permissions'',
     message = ''You do not have enough permissions to perform this request.''\<rparr>"

section \<open>Effects\<close>

text \<open>
  An asynchronous method that may throw and may change the world (the database, the log):
  it takes the world and returns the failure or the value, with the new world.
\<close>

type_synonym ('w, 'a) io = "'w \<Rightarrow> (failure + 'a) \<times> 'w"

definition io_return :: "'a \<Rightarrow> ('w, 'a) io" where
  "io_return a = (\<lambda>w. (Inr a, w))"

definition io_throw :: "failure \<Rightarrow> ('w, 'a) io" where
  "io_throw e = (\<lambda>w. (Inl e, w))"

definition io_bind :: "('w, 'a) io \<Rightarrow> ('a \<Rightarrow> ('w, 'b) io) \<Rightarrow> ('w, 'b) io" where
  "io_bind m f = (\<lambda>w. case m w of (Inl e, w') \<Rightarrow> (Inl e, w') | (Inr a, w') \<Rightarrow> f a w')"

text \<open>A synchronous call that may throw, lifted.\<close>

definition io_lift :: "failure + 'a \<Rightarrow> ('w, 'a) io" where
  "io_lift r = (\<lambda>w. (r, w))"

text \<open>\<open>try { body } catch (err) { throw new ApplicationError(d, err) }\<close>\<close>

definition try_rethrow :: "description \<Rightarrow> ('w, 'a) io \<Rightarrow> ('w, 'a) io" where
  "try_rethrow d body =
     (\<lambda>w. case body w of
        (Inl err, w') \<Rightarrow> (Inl (new_ApplicationError d (Some err)), w')
      | (Inr a, w') \<Rightarrow> (Inr a, w'))"

text \<open>\<open>xs.map(f)\<close> where \<open>f\<close> may throw: the first failure ends the map.\<close>

fun map_throwing :: "('a \<Rightarrow> failure + 'b) \<Rightarrow> 'a list \<Rightarrow> failure + 'b list" where
  "map_throwing f [] = Inr []"
| "map_throwing f (x # xs) =
     (case f x of
        Inl e \<Rightarrow> Inl e
      | Inr y \<Rightarrow> (case map_throwing f xs of Inl e \<Rightarrow> Inl e | Inr ys \<Rightarrow> Inr (y # ys)))"

section \<open>The data provider (dataprovider.ts)\<close>

text \<open>
  \<open>SequelizeDataProvider\<close> is constructed from a repository, a serializer, a validator
  and a permissions manager, and subclasses may override its four hooks. The provider
  calls them through these methods only, so they are the fields of one record. DTOs are
  JSON values; \<open>'item\<close> is the model instance type \<open>T\<close>.
\<close>

record ('w, 'st, 'rq, 'item) collaborators =
  validateReadPermissions :: "'st \<Rightarrow> int option \<Rightarrow> ('w, unit) io"
  validateCreatePermissions :: "'st \<Rightarrow> json \<Rightarrow> ('w, unit) io"
  validateUpdatePermissions :: "'st \<Rightarrow> int \<Rightarrow> ('w, unit) io"
  validateDeletePermissions :: "'st \<Rightarrow> int \<Rightarrow> ('w, unit) io"
  repository_getList :: "'st \<Rightarrow> 'rq \<Rightarrow> ('w, 'item list \<times> json) io"
  repository_getItem :: "'st \<Rightarrow> int \<Rightarrow> ('w, 'item) io"
  repository_createItem :: "'st \<Rightarrow> json \<Rightarrow> ('w, 'item) io"
  repository_updateItem :: "'st \<Rightarrow> int \<Rightarrow> json \<Rightarrow> ('w, 'item) io"
  repository_deleteItem :: "'st \<Rightarrow> int \<Rightarrow> ('w, 'item) io"
  serialize :: "'item \<Rightarrow> 'st \<Rightarrow> failure + json"
  deserialize :: "json \<Rightarrow> 'st \<Rightarrow> json option \<Rightarrow> ('w, json) io"
  validateImmutableFields :: "json \<Rightarrow> json \<Rightarrow> failure + unit"
  validateRelations :: "json \<Rightarrow> ('w, unit) io"
  validateInput :: "json \<Rightarrow> 'st \<Rightarrow> json option \<Rightarrow> json option \<Rightarrow> ('w, unit) io"
  partialMerge :: "json \<Rightarrow> json \<Rightarrow> failure + json"
  beforeCreate :: "json \<Rightarrow> 'st \<Rightarrow> ('w, json) io"
  afterCreate :: "'item \<Rightarrow> json \<Rightarrow> 'st \<Rightarrow> ('w, 'item) io"
  beforeUpdate :: "json \<Rightarrow> int \<Rightarrow> json \<Rightarrow> 'st \<Rightarrow> ('w, json) io"
  afterUpdate :: "'item \<Rightarrow> json \<Rightarrow> int \<Rightarrow> json \<Rightarrow> 'st \<Rightarrow> ('w, 'item) io"

text \<open>The statements inside the \<open>try\<close> block of each operation.\<close>

definition DataProvider_getList_try :: "('w, 'st, 'rq, 'item) collaborators \<Rightarrow> 'st \<Rightarrow> 'rq \<Rightarrow> ('w, json list \<times> json) io" where
  "DataProvider_getList_try c state request =
     io_bind (repository_getList c state request) (\<lambda>(items, count).
     io_bind (io_lift (map_throwing (\<lambda>item. serialize c item state) items)) (\<lambda>response.
     io_return (response, count)))"

definition DataProvider_getItem_try :: "('w, 'st, 'rq, 'item) collaborators \<Rightarrow> 'st \<Rightarrow> int \<Rightarrow> ('w, json) io" where
  "DataProvider_getItem_try c state id' =
     io_bind (repository_getItem c state id') (\<lambda>item.
     io_lift (serialize c item state))"

definition DataProvider_createItem_try :: "('w, 'st, 'rq, 'item) collaborators \<Rightarrow> 'st \<Rightarrow> json \<Rightarrow> ('w, json) io" where
  "DataProvider_createItem_try c state input =
     io_bind (validateRelations c input) (\<lambda>_.
     io_bind (validateInput c input state None None) (\<lambda>_.
     io_bind (beforeCreate c input state) (\<lambda>_.
     io_bind (deserialize c input state None) (\<lambda>creationAttributes.
     io_bind (repository_createItem c state creationAttributes) (\<lambda>baseCreatedItem.
     io_bind (afterCreate c baseCreatedItem input state) (\<lambda>createdItem.
     io_lift (serialize c createdItem state)))))))"

definition DataProvider_deleteItem_try :: "('w, 'st, 'rq, 'item) collaborators \<Rightarrow> 'st \<Rightarrow> int \<Rightarrow> ('w, json) io" where
  "DataProvider_deleteItem_try c state id' =
     io_bind (repository_deleteItem c state id') (\<lambda>item.
     io_lift (serialize c item state))"

text \<open>
  The five operations of the provider (\<open>getList\<close>, \<open>getItem\<close>, \<open>createItem\<close>,
  \<open>updateItem\<close>, \<open>deleteItem\<close>; the repository has methods of the same names, so
  these carry the class name): the permission check, then the guarded block.
\<close>

definition DataProvider_getList :: "('w, 'st, 'rq, 'item) collaborators \<Rightarrow> 'st \<Rightarrow> 'rq \<Rightarrow> ('w, json list \<times> json) io" where
  "DataProvider_getList c state request =
     io_bind (validateReadPermissions c state None) (\<lambda>_.
     try_rethrow UNABLE_TO_LIST (DataProvider_getList_try c state request))"

definition DataProvider_getItem :: "('w, 'st, 'rq, 'item) collaborators \<Rightarrow> 'st \<Rightarrow> int \<Rightarrow> ('w, json) io" where
  "DataProvider_getItem c state id' =
     io_bind (validateReadPermissions c state (Some id')) (\<lambda>_.
     try_rethrow UNABLE_TO_GET (DataProvider_getItem_try c state id'))"

definition DataProvider_createItem :: "('w, 'st, 'rq, 'item) collaborators \<Rightarrow> 'st \<Rightarrow> json \<Rightarrow> ('w, json) io" where
  "DataProvider_createItem c state input =
     io_bind (validateCreatePermissions c state input) (\<lambda>_.
     try_rethrow UNABLE_TO_CREATE (DataProvider_createItem_try c state input))"

text \<open>
  \<open>updateItem\<close> fetches the existing item through the provider's own \<open>getItem\<close>, and
  completes a non-partial input as \<open>{ ...input, id }\<close>.
\<close>

definition complete_input :: "json \<Rightarrow> int \<Rightarrow> json" where
  "complete_input input id' =
     (case input of
        JObj kvs \<Rightarrow> JObj (set_key kvs ''id'' (JNum id'))
      | _ \<Rightarrow> JObj [(''id'', JNum id')])"

definition DataProvider_updateItem_try :: "('w, 'st, 'rq, 'item) collaborators \<Rightarrow> 'st \<Rightarrow> int \<Rightarrow> json \<Rightarrow> bool \<Rightarrow> ('w, json) io" where
  "DataProvider_updateItem_try c state id' input isPartial =
     io_bind (DataProvider_getItem c state id') (\<lambda>item.
     io_bind (io_lift (validateImmutableFields c input item)) (\<lambda>_.
     io_bind (validateRelations c input) (\<lambda>_.
     io_bind (io_lift (if isPartial then partialMerge c item input
                       else Inr (complete_input input id'))) (\<lambda>completeInput.
     io_bind (validateInput c completeInput state (Some item) (Some input)) (\<lambda>_.
     io_bind (beforeUpdate c input id' item state) (\<lambda>updatedInput.
     io_bind (deserialize c updatedInput state (Some item)) (\<lambda>updateAttributes.
     io_bind (repository_updateItem c state id' updateAttributes) (\<lambda>baseUpdatedItem.
     io_bind (afterUpdate c baseUpdatedItem input id' item state) (\<lambda>updatedItem.
     io_lift (serialize c updatedItem state))))))))))"

definition DataProvider_updateItem :: "('w, 'st, 'rq, 'item) collaborators \<Rightarrow> 'st \<Rightarrow> int \<Rightarrow> json \<Rightarrow> bool \<Rightarrow> ('w, json) io" where
  "DataProvider_updateItem c state id' input isPartial =
     io_bind (validateUpdatePermissions c state id') (\<lambda>_.
     try_rethrow UNABLE_TO_UPDATE (DataProvider_updateItem_try c state id' input isPartial))"

definition DataProvider_deleteItem :: "('w, 'st, 'rq, 'item) collaborators \<Rightarrow> 'st \<Rightarrow> int \<Rightarrow> ('w, json) io" where
  "DataProvider_deleteItem c state id' =
     io_bind (validateDeletePermissions c state id') (\<lambda>_.
     try_rethrow UNABLE_TO_DELETE (DataProvider_deleteItem_try c state id'))"

section \<open>Request parameters (context-request.class.ts, context-utils.ts, config.ts)\<close>

definition DEFAULT_PAGE_SIZE :: int where
  "DEFAULT_PAGE_SIZE = 25"

definition DEFAULT_MAXIMUM_PAGE_SIZE :: int where
  "DEFAULT_MAXIMUM_PAGE_SIZE = 100"

text \<open>Decimal rendering of a number inside a template string.\<close>

function render_digits :: "nat \<Rightarrow> string \<Rightarrow> string" where
  "render_digits n acc =
     (let acc' = char_of (n mod 10 + 48) # acc
      in if n div 10 = 0 then acc' else render_digits (n div 10) acc')"
  by pat_completeness auto
termination
  by (relation "measure fst") auto

definition string_of_nat :: "nat \<Rightarrow> string" where
  "string_of_nat n = render_digits n []"

definition string_of_int :: "int \<Rightarrow> string" where
  "string_of_int i =
     (if i < 0 then CHR ''-'' # string_of_nat (nat (- i)) else string_of_nat (nat i))"

text \<open>\<open>xs.join(sep)\<close>\<close>

fun join :: "string \<Rightarrow> string list \<Rightarrow> string" where
  "join sep [] = []"
| "join sep [x] = x"
| "join sep (x # y # ys) = x @ sep @ join sep (y # ys)"

text \<open>
  \<open>String(x)\<close>, as a template string renders a value. An array renders its elements
  separated by commas, \<open>null\<close> and \<open>undefined\<close> elements as nothing.
\<close>

fun to_string :: "json \<Rightarrow> string" where
  "to_string (JNum n) = string_of_int n"
| "to_string JNaN = ''NaN''"
| "to_string JUndefined = ''undefined''"
| "to_string JNull = ''null''"
| "to_string (JBool b) = (if b then ''true'' else ''false'')"
| "to_string (JStr s) = s"
| "to_string (JArr xs) =
     join '','' (map (\<lambda>x. if x = JNull \<or> x = JUndefined then [] else to_string x) xs)"
| "to_string (JObj kvs) = ''[object Object]''"

definition VALIDATION_MAXIMUM_PAGE_SIZE :: "json \<Rightarrow> json \<Rightarrow> description" where
  "VALIDATION_MAXIMUM_PAGE_SIZE maximumPageSize pageSize =
     \<lparr>code = 400, error = ''Validation Error'',
      message = ''The selected page size '' @ [CHR 0x27] @ to_string pageSize @ [CHR 0x27]
        @ '' exceeds the maximum page of '' @ [CHR 0x27] @ to_string maximumPageSize
        @ [CHR 0x27] @ ''.''\<rparr>"

text \<open>
  Reading a decimal integer: the numeric strings a query string carries for \<open>page\<close>
  and \<open>page_size\<close>. Unary plus on any other string gives \<open>NaN\<close> here (JavaScript
  also reads fractions, exponents and hexadecimal; they are outside this model).
\<close>

definition digit_value :: "char \<Rightarrow> nat option" where
  "digit_value c =
     (if 48 \<le> (of_char c :: nat) \<and> (of_char c :: nat) \<le> 57
      then Some (of_char c - 48) else None)"

fun parse_nat :: "nat \<Rightarrow> string \<Rightarrow> nat option" where
  "parse_nat acc [] = Some acc"
| "parse_nat acc (c # cs) =
     (case digit_value c of None \<Rightarrow> None | Some d \<Rightarrow> parse_nat (acc * 10 + d) cs)"

definition parse_int :: "string \<Rightarrow> int option" where
  "parse_int s =
     (case s of
        [] \<Rightarrow> Some 0
      | c # cs \<Rightarrow>
          if c = CHR ''-'' \<and> cs \<noteq> [] then map_option (\<lambda>n. - int n) (parse_nat 0 cs)
          else if c = CHR ''+'' \<and> cs \<noteq> [] then map_option int (parse_nat 0 cs)
          else map_option int (parse_nat 0 s))"

text \<open>Unary plus, \<open>+x\<close>.\<close>

fun to_number :: "json \<Rightarrow> json" where
  "to_number (JNum n) = JNum n"
| "to_number JNaN = JNaN"
| "to_number JUndefined = JNaN"
| "to_number JNull = JNum 0"
| "to_number (JBool b) = JNum (if b then 1 else 0)"
| "to_number (JStr s) = (case parse_int s of Some n \<Rightarrow> JNum n | None \<Rightarrow> JNaN)"
| "to_number (JArr xs) = JNaN"
| "to_number (JObj kvs) = JNaN"

text \<open>Arithmetic and comparison of numbers: \<open>NaN\<close> propagates and compares false.\<close>

fun js_abs :: "json \<Rightarrow> json" where
  "js_abs (JNum n) = JNum \<bar>n\<bar>"
| "js_abs _ = JNaN"

fun js_sub :: "json \<Rightarrow> json \<Rightarrow> json" where
  "js_sub (JNum a) (JNum b) = JNum (a - b)"
| "js_sub _ _ = JNaN"

fun js_mul :: "json \<Rightarrow> json \<Rightarrow> json" where
  "js_mul (JNum a) (JNum b) = JNum (a * b)"
| "js_mul _ _ = JNaN"

fun js_gt :: "json \<Rightarrow> json \<Rightarrow> bool" where
  "js_gt (JNum a) (JNum b) = (a > b)"
| "js_gt _ _ = False"

text \<open>\<open>_.defaultTo(value, d)\<close>: \<open>d\<close> for \<open>NaN\<close>, \<open>null\<close> and \<open>undefined\<close>.\<close>

fun defaultTo :: "json \<Rightarrow> json \<Rightarrow> json" where
  "defaultTo JNaN d = d"
| "defaultTo JNull d = d"
| "defaultTo JUndefined d = d"
| "defaultTo v d = v"

text \<open>\<open>_.isNumber\<close>: true of \<open>NaN\<close> too.\<close>

fun isNumber :: "json \<Rightarrow> bool" where
  "isNumber (JNum n) = True"
| "isNumber JNaN = True"
| "isNumber _ = False"

text \<open>
  \<open>getAndValidatePageSize\<close>. \<open>fromEnv\<close> is \<open>parseInt(process.env.MAXIMUM_PAGE_SIZE, 10)\<close>:
  a number or \<open>NaN\<close>.
\<close>

definition getAndValidatePageSize :: "json \<Rightarrow> json \<Rightarrow> json \<Rightarrow> failure + json" where
  "getAndValidatePageSize fromEnv pageSize0 maximumPageSize0 =
     (let pageSize = defaultTo pageSize0 (JNum DEFAULT_PAGE_SIZE);
          maximumPageSize =
            (if \<not> isNumber maximumPageSize0
             then (if fromEnv = JNaN then JNum DEFAULT_MAXIMUM_PAGE_SIZE else fromEnv)
             else maximumPageSize0)
      in if js_gt pageSize maximumPageSize
         then Inl (new_ApplicationError
                     (VALIDATION_MAXIMUM_PAGE_SIZE maximumPageSize pageSize) None)
         else Inr pageSize)"

text \<open>
  \<open>ContextRequest\<close>: the parsed query and the maximum page size, which the constructor
  reads from the environment.
\<close>

record ContextRequest =
  query :: "(string \<times> json) list"
  maximumPageSize :: json
  env_MAXIMUM_PAGE_SIZE :: json

definition new_ContextRequest :: "json \<Rightarrow> (string \<times> json) list \<Rightarrow> ContextRequest" where
  "new_ContextRequest fromEnv q =
     \<lparr>query = q,
      maximumPageSize = (if fromEnv = JNaN then JNum DEFAULT_MAXIMUM_PAGE_SIZE else fromEnv),
      env_MAXIMUM_PAGE_SIZE = fromEnv\<rparr>"

definition query_get :: "ContextRequest \<Rightarrow> string \<Rightarrow> json" where
  "query_get r k = (case map_of (query r) k of Some v \<Rightarrow> v | None \<Rightarrow> JUndefined)"

definition getNumber :: "ContextRequest \<Rightarrow> string \<Rightarrow> json \<Rightarrow> json" where
  "getNumber r k defaultNumber =
     (if truthy (query_get r k) then to_number (query_get r k) else defaultNumber)"

definition getPage :: "ContextRequest \<Rightarrow> json" where
  "getPage r = getNumber r ''page'' (JNum 1)"

definition getPageSize :: "ContextRequest \<Rightarrow> failure + json" where
  "getPageSize r =
     getAndValidatePageSize (env_MAXIMUM_PAGE_SIZE r) (getNumber r ''page_size'' JUndefined)
       (maximumPageSize r)"

definition setMaximumPageSize :: "ContextRequest \<Rightarrow> json \<Rightarrow> ContextRequest" where
  "setMaximumPageSize r maximum = r\<lparr>maximumPageSize := maximum\<rparr>"

text \<open>\<open>getArray\<close> (\<open>_.castArray\<close> of a truthy value) and \<open>getString\<close>, as the filters use them.\<close>

definition getArray :: "ContextRequest \<Rightarrow> string \<Rightarrow> json list" where
  "getArray r k =
     (let v = query_get r k
      in if truthy v then (case v of JArr xs \<Rightarrow> xs | _ \<Rightarrow> [v]) else [])"

definition getString :: "ContextRequest \<Rightarrow> string \<Rightarrow> string option" where
  "getString r k =
     (let v = query_get r k
      in if truthy v then Some (to_string v) else None)"

section \<open>Entity descriptors and query conditions\<close>

text \<open>
  What the generator reads of a Sequelize model class: its name, primary key, attributes
  and associations. An association names its target model; the registry gives the model
  of a name (the models refer to each other, so they are looked up rather than nested).
\<close>

datatype AssociationType = BELONGS_TO | HAS_ONE | BELONGS_TO_MANY | HAS_MANY

record Attribute =
  allowNull :: bool
  field :: string
  type_key :: string
  defaultValue :: json

record Association =
  associationType :: AssociationType
  as :: string
  target :: string
  foreignKey :: string
  through_model :: string
  otherKey :: string

record Model =
  name :: string
  primaryKeyAttribute :: string
  primaryKeyField :: string
  rawAttributes :: "(string \<times> Attribute) list"
  associations :: "(string \<times> Association) list"
  timestamps :: bool
  updatedAt :: "string option"

type_synonym registry = "string \<Rightarrow> Model"

text \<open>\<open>k in o\<close> for the own keys of an object literal.\<close>

definition has_key :: "(string \<times> 'a) list \<Rightarrow> string \<Rightarrow> bool" where
  "has_key kvs k = (map_of kvs k \<noteq> None)"

text \<open>
  The operator symbols of Sequelize's \<open>Op\<close> object. \<open>Op[name]\<close> is the symbol of that
  name, or \<open>undefined\<close> for a name \<open>Op\<close> does not have.
\<close>

datatype opkey = Op string

definition Op_names :: "string list" where
  "Op_names = [''eq'', ''ne'', ''gte'', ''gt'', ''lte'', ''lt'', ''not'', ''is'', ''in'',
     ''notIn'', ''like'', ''notLike'', ''iLike'', ''notILike'', ''startsWith'', ''endsWith'',
     ''substring'', ''regexp'', ''notRegexp'', ''iRegexp'', ''notIRegexp'', ''between'',
     ''notBetween'', ''overlap'', ''contains'', ''contained'', ''adjacent'', ''strictLeft'',
     ''strictRight'', ''noExtendRight'', ''noExtendLeft'', ''and'', ''or'', ''any'', ''all'',
     ''values'', ''col'', ''placeholder'', ''join'', ''match'', ''anyKeyExists'',
     ''allKeysExist'']"

definition Op_lookup :: "string option \<Rightarrow> opkey option" where
  "Op_lookup operator =
     (case operator of
        None \<Rightarrow> None
      | Some n \<Rightarrow> if n \<in> set Op_names then Some (Op n) else None)"

text \<open>
  \<open>WhereOptions\<close>, in the shapes the generator builds:
  \<open>{ [Op.and]: [...] }\<close>, \<open>{ [Op.or]: [...] }\<close>, \<open>{ [column]: value }\<close>,
  \<open>{ [column]: { [Op.x]: value } }\<close> and \<open>Sequelize.where(literal, { [Op.x]: value })\<close>.
  The operator of a comparison is \<open>None\<close> when the computed key \<open>Op[operator]\<close> was
  \<open>undefined\<close>. \<open>WhereUndefined\<close> is an \<open>undefined\<close> entry of an \<open>Op.and\<close> array.
\<close>

datatype where_options =
    WhereAnd "where_options list"
  | WhereOr "where_options list"
  | WhereField string json
  | WhereOp string "opkey option" json
  | WhereLiteral string "opkey option" json
  | WhereUndefined

text \<open>
  An entry of \<open>include\<close>: the model, its scalar options (\<open>as\<close>, \<open>required\<close>,
  \<open>attributes\<close>, ...), its \<open>where\<close> and its nested \<open>include\<close>.
\<close>

datatype includeable =
  Includeable string "(string \<times> json) list" "where_options option" "includeable list"

text \<open>An entry of \<open>order\<close>: a literal, or an association path, a column and a direction.\<close>

datatype order_item = OrderLiteral string | OrderBy "string list" string string

text \<open>
  \<open>FindOptions\<close>: a property that is absent is \<open>None\<close>. \<open>fo_rest\<close> holds the other
  scalar options of a fetch condition, such as \<open>subQuery\<close>.
\<close>

record FindOptions =
  fo_where :: "where_options option"
  fo_include :: "includeable list option"
  fo_attributes :: "(string list \<times> (string \<times> string) list) option"
  fo_order :: "order_item list option"
  fo_limit :: "json option"
  fo_offset :: "json option"
  fo_group :: "string option"
  fo_rest :: "(string \<times> json) list"

definition empty_options :: FindOptions where
  "empty_options = \<lparr>fo_where = None, fo_include = None, fo_attributes = None,
     fo_order = None, fo_limit = None, fo_offset = None, fo_group = None, fo_rest = []\<rparr>"

definition or_else :: "'a option \<Rightarrow> 'a option \<Rightarrow> 'a option" where
  "or_else b a = (case b of Some v \<Rightarrow> Some v | None \<Rightarrow> a)"

text \<open>Object spread of two \<open>FindOptions\<close>, \<open>{ ...a, ...b }\<close>: the properties of \<open>b\<close> win.\<close>

definition spread_options :: "FindOptions \<Rightarrow> FindOptions \<Rightarrow> FindOptions" where
  "spread_options a b =
     \<lparr>fo_where = or_else (fo_where b) (fo_where a),
      fo_include = or_else (fo_include b) (fo_include a),
      fo_attributes = or_else (fo_attributes b) (fo_attributes a),
      fo_order = or_else (fo_order b) (fo_order a),
      fo_limit = or_else (fo_limit b) (fo_limit a),
      fo_offset = or_else (fo_offset b) (fo_offset a),
      fo_group = or_else (fo_group b) (fo_group a),
      fo_rest = spread (fo_rest a) (fo_rest b)\<rparr>"

text \<open>The auth context: the metadata attached to the client and user.\<close>

record AuthContextMetadata =
  metadata :: "(string \<times> json) list"

definition getMetadata :: "AuthContextMetadata \<Rightarrow> json" where
  "getMetadata state = JObj (metadata state)"

text \<open>\<open>Array.isArray(v) ? v : [v]\<close>\<close>

definition as_array :: "json \<Rightarrow> json list" where
  "as_array v = (case v of JArr xs \<Rightarrow> xs | _ \<Rightarrow> [v])"

section \<open>The association builder (association-builder.ts)\<close>

text \<open>A value of a path map: a path string or a Sequelize literal.\<close>

datatype path_entry = PathString string | PathLiteral string

type_synonym pathMap = "(string \<times> path_entry) list"

text \<open>
  \<open>this.pathMap[queryPath] || queryPath\<close>. Property names that every object inherits
  (\<open>constructor\<close>, \<open>toString\<close>, ...) are not modelled as keys of the map.
\<close>

definition pathMap_or :: "pathMap \<Rightarrow> string \<Rightarrow> path_entry" where
  "pathMap_or pm queryPath =
     (case map_of pm queryPath of
        Some (PathLiteral l) \<Rightarrow> PathLiteral l
      | Some (PathString s) \<Rightarrow> if s = [] then PathString queryPath else PathString s
      | None \<Rightarrow> PathString queryPath)"

text \<open>\<open>s.split(c)\<close> for a one-character separator, and for a class of separators.\<close>

fun split_where :: "(char \<Rightarrow> bool) \<Rightarrow> string \<Rightarrow> string list" where
  "split_where p [] = [[]]"
| "split_where p (x # xs) =
     (if p x then [] # split_where p xs
      else (case split_where p xs of [] \<Rightarrow> [[x]] | w # ws \<Rightarrow> (x # w) # ws))"

definition split_on :: "char \<Rightarrow> string \<Rightarrow> string list" where
  "split_on c s = split_where (\<lambda>x. x = c) s"

text \<open>
  The builder's list of associations may hold \<open>undefined\<close> where a name was not found:
  its entries are options.
\<close>

definition getLastAssociationModel :: "registry \<Rightarrow> Model \<Rightarrow> Association option list \<Rightarrow> Model" where
  "getLastAssociationModel reg model associations' =
     (case (if associations' = [] then None else last associations') of
        Some lastAssociation \<Rightarrow> reg (target lastAssociation)
      | None \<Rightarrow> model)"

definition serializeColumnName :: "string \<Rightarrow> string" where
  "serializeColumnName column = (if CHR ''.'' \<in> set column then ''$'' @ column @ ''$'' else column)"

definition validateAssociations ::
  "registry \<Rightarrow> Model \<Rightarrow> description \<Rightarrow> Association option list \<Rightarrow> string \<Rightarrow> failure + unit" where
  "validateAssociations reg model associationError associations' field' =
     (let hasInvalidAssociations = list_ex (\<lambda>association. association = None) associations';
          model' = getLastAssociationModel reg model associations';
          isFieldInvalid = \<not> has_key (rawAttributes model') field'
      in if hasInvalidAssociations \<or> isFieldInvalid
         then Inl (new_ApplicationError associationError None)
         else Inr ())"

definition buildAssociations :: "registry \<Rightarrow> Model \<Rightarrow> string list \<Rightarrow> Association option list" where
  "buildAssociations reg model names =
     foldl (\<lambda>associations' name'.
              associations' @
                [map_of (associations (getLastAssociationModel reg model associations')) name'])
       [] names"

definition extractAndValidatePathData ::
  "registry \<Rightarrow> Model \<Rightarrow> pathMap \<Rightarrow> description \<Rightarrow> string
     \<Rightarrow> failure + (Association list \<times> path_entry)" where
  "extractAndValidatePathData reg model pm associationError queryPath =
     (case pathMap_or pm queryPath of
        PathLiteral l \<Rightarrow> Inr ([], PathLiteral l)
      | PathString path \<Rightarrow>
          (let pathKeys = split_on CHR ''.'' path;
               field' = last pathKeys;
               associations' = buildAssociations reg model (butlast pathKeys)
           in case validateAssociations reg model associationError associations' field' of
                Inl e \<Rightarrow> Inl e
              | Inr _ \<Rightarrow> Inr (List.map_filter (\<lambda>a. a) associations', PathString field')))"

section \<open>The permissions manager (permissions-manager.ts)\<close>

definition INVALID_PERMISSION_DEFINITION :: description where
  "INVALID_PERMISSION_DEFINITION = \<lparr>code = 500, error = ''Internal Server Error'',
     message = ''The service could not process this request.''\<rparr>"

definition NO_ACCESS :: "string \<Rightarrow> json \<Rightarrow> description" where
  "NO_ACCESS key' value' = \<lparr>code = 403, error = ''No permissions'',
     message = ''You do not have access to '' @ key' @ '' '' @ [CHR 0x27] @ to_string value'
       @ [CHR 0x27] @ ''.''\<rparr>"

record PermissionDefinition =
  key :: string
  shouldApply :: "(AuthContextMetadata \<Rightarrow> bool) option"

definition DEFAULT_PERMISSIONS_DEFINITIONS :: "PermissionDefinition list" where
  "DEFAULT_PERMISSIONS_DEFINITIONS = [\<lparr>key = ''market_place'', shouldApply = None\<rparr>]"

text \<open>
  The fields of a \<open>PermissionsManager\<close> instance. \<open>restrictions\<close> and \<open>includes\<close> are
  instance fields, initialised to \<open>[]\<close> when the manager is constructed.
\<close>

record PermissionsManager =
  pm_model :: Model
  pm_pathMap :: pathMap
  definitions :: "PermissionDefinition list"
  restrictions :: "where_options list"
  includes' :: "includeable list"

definition new_PermissionsManager ::
  "Model \<Rightarrow> pathMap \<Rightarrow> PermissionDefinition list \<Rightarrow> PermissionsManager" where
  "new_PermissionsManager model pm defs =
     \<lparr>pm_model = model, pm_pathMap = pm, definitions = defs, restrictions = [], includes' = []\<rparr>"

definition applies :: "PermissionDefinition \<Rightarrow> AuthContextMetadata \<Rightarrow> bool" where
  "applies definition' state =
     (case shouldApply definition' of None \<Rightarrow> True | Some f \<Rightarrow> f state)"

definition serializeKey :: "registry \<Rightarrow> PermissionsManager \<Rightarrow> string \<Rightarrow> string" where
  "serializeKey reg this key' =
     (let hasCustomPath = has_key (pm_pathMap this) key';
          isAttribute = has_key (rawAttributes (pm_model this)) key';
          isAssociation = has_key (associations (pm_model this)) key'
      in if hasCustomPath \<or> isAttribute \<or> \<not> isAssociation then key'
         else (case map_of (associations (pm_model this)) key' of
                 None \<Rightarrow> key'
               | Some a \<Rightarrow> key' @ ''.'' @ primaryKeyAttribute (reg (target a))))"

text \<open>
  One turn of the loop of \<open>generateCondition\<close>: the path is validated, then the
  restriction is pushed onto \<open>this.restrictions\<close>.
\<close>

definition restriction_of :: "path_entry \<Rightarrow> json list \<Rightarrow> where_options" where
  "restriction_of column value' =
     (case column of
        PathLiteral l \<Rightarrow> WhereLiteral l (Op_lookup (Some ''in'')) (JArr value')
      | PathString c \<Rightarrow> WhereOp (serializeColumnName c) (Op_lookup (Some ''in'')) (JArr value'))"

definition generateCondition_step ::
  "registry \<Rightarrow> AuthContextMetadata \<Rightarrow> PermissionDefinition \<Rightarrow> (PermissionsManager, unit) io" where
  "generateCondition_step reg state definition' this =
     (let path = serializeKey reg this (key definition');
          column = pathMap_or (pm_pathMap this) path
      in case extractAndValidatePathData reg (pm_model this) (pm_pathMap this)
                INVALID_PERMISSION_DEFINITION path of
           Inl e \<Rightarrow> (Inl e, this)
         | Inr _ \<Rightarrow>
             (let value' = as_array (get_prop (getMetadata state) (key definition'));
                  restriction = restriction_of column value'
              in (Inr (), this\<lparr>restrictions := restrictions this @ [restriction]\<rparr>)))"

text \<open>\<open>for (const x of xs) { body }\<close> where the body may throw.\<close>

fun for_each :: "('a \<Rightarrow> ('w, unit) io) \<Rightarrow> 'a list \<Rightarrow> ('w, unit) io" where
  "for_each body [] = io_return ()"
| "for_each body (x # xs) = io_bind (body x) (\<lambda>_. for_each body xs)"

definition generateCondition ::
  "registry \<Rightarrow> AuthContextMetadata \<Rightarrow> (PermissionsManager, FindOptions) io" where
  "generateCondition reg state =
     io_bind (\<lambda>this.
        for_each (generateCondition_step reg state)
          (filter (\<lambda>definition'. applies definition' state) (definitions this)) this)
     (\<lambda>_ this.
        (Inr (empty_options
               \<lparr>fo_where := (if restrictions this \<noteq> [] then Some (WhereAnd (restrictions this))
                               else None),
                fo_include := (if includes' this \<noteq> [] then Some (includes' this) else None)\<rparr>),
         this))"

text \<open>\<open>buildValidationCondition\<close>: the \<open>reduceRight\<close> nests one include per association.\<close>

record include_options =
  io_where :: "where_options option"
  io_include :: "includeable list option"

definition buildValidationCondition ::
  "Association list \<Rightarrow> path_entry \<Rightarrow> json list \<Rightarrow> string \<times> json \<Rightarrow> FindOptions" where
  "buildValidationCondition associations' field' value' primaryKeyClause =
     (let init = \<lparr>io_where = Some (case field' of
                     PathLiteral l \<Rightarrow> WhereLiteral l (Op_lookup (Some ''in'')) (JArr value')
                   | PathString f \<Rightarrow> WhereOp f (Op_lookup (Some ''in'')) (JArr value')),
                  io_include = None\<rparr>;
          r = foldr (\<lambda>association includeOptions.
                 \<lparr>io_where = None,
                  io_include = Some [Includeable (target association)
                     [(''required'', JBool True)]
                     (io_where includeOptions)
                     (case io_include includeOptions of None \<Rightarrow> [] | Some is \<Rightarrow> is)]\<rparr>)
               associations' init;
          pk = WhereField (fst primaryKeyClause) (snd primaryKeyClause)
      in empty_options
           \<lparr>fo_where := Some (case io_where r of Some w \<Rightarrow> WhereAnd [pk, w] | None \<Rightarrow> pk),
            fo_include := io_include r\<rparr>)"

text \<open>
  \<open>validateCreatePermissions\<close>. The world is the error log that \<open>console.error\<close>
  writes. \<open>findOne\<close> is the storage client's lookup on the unscoped target model: it
  may fail, find nothing, or find an entity. The loop ends in one of three ways, so each
  turn says whether to go on (\<open>continue\<close> and the fall through) or to return.
\<close>

datatype loop_control = Continue | Return

definition no_association_message :: "string \<Rightarrow> string \<Rightarrow> string" where
  "no_association_message key' model_name =
     ''[validateCreatePermissions] No direct association was found for '' @ key'
       @ '' permission definition of '' @ model_name @ ''.'' @ [CHR 0x0A] @ replicate 20 CHR '' ''
       @ ''Consider double checking your paths or overriding this method.''"

definition no_id_message :: "string \<Rightarrow> string \<Rightarrow> string" where
  "no_id_message key' model_name =
     ''[validateCreatePermissions] No id could be extracted from input for '' @ key'
       @ '' permission definition of '' @ model_name @ ''.'' @ [CHR 0x0A] @ replicate 20 CHR '' ''
       @ ''Consider double checking your paths or overriding this method.''"

definition validateCreatePermissions_step ::
  "registry \<Rightarrow> (string \<Rightarrow> FindOptions \<Rightarrow> failure + json) \<Rightarrow> PermissionsManager
     \<Rightarrow> AuthContextMetadata \<Rightarrow> json \<Rightarrow> PermissionDefinition \<Rightarrow> (string list, loop_control) io" where
  "validateCreatePermissions_step reg findOne this state input definition' log =
     (if \<not> applies definition' state then (Inr Continue, log)
      else
        (let key' = key definition';
             path = serializeKey reg this key'
         in case extractAndValidatePathData reg (pm_model this) (pm_pathMap this)
                   INVALID_PERMISSION_DEFINITION path of
              Inl e \<Rightarrow> (Inl e, log)
            | Inr (associations', field') \<Rightarrow>
                (case associations' of
                   [] \<Rightarrow> (Inr Return, log @ [no_association_message key' (name (pm_model this))])
                 | directAssociation # rest \<Rightarrow>
                     (let primaryKey = primaryKeyAttribute (reg (target directAssociation));
                          associationName = as directAssociation;
                          primaryKeyValue = get_prop (get_prop input associationName) primaryKey
                      in if \<not> truthy primaryKeyValue
                         then (Inr Return, log @ [no_id_message key' (name (pm_model this))])
                         else
                           (let permissionValue = as_array (get_prop (getMetadata state) key');
                                condition = buildValidationCondition rest field' permissionValue
                                              (primaryKey, primaryKeyValue)
                            in case findOne (target directAssociation) condition of
                                 Inl e \<Rightarrow> (Inl e, log)
                               | Inr entity \<Rightarrow>
                                   if \<not> truthy entity
                                   then (Inl (new_ApplicationError
                                                (NO_ACCESS key' primaryKeyValue) None), log)
                                   else (Inr Continue, log))))))"

fun for_each_until :: "('a \<Rightarrow> ('w, loop_control) io) \<Rightarrow> 'a list \<Rightarrow> ('w, unit) io" where
  "for_each_until body [] = io_return ()"
| "for_each_until body (x # xs) =
     io_bind (body x) (\<lambda>c. case c of Return \<Rightarrow> io_return () | Continue \<Rightarrow> for_each_until body xs)"

definition validateCreatePermissions' ::
  "registry \<Rightarrow> (string \<Rightarrow> FindOptions \<Rightarrow> failure + json) \<Rightarrow> PermissionsManager
     \<Rightarrow> AuthContextMetadata \<Rightarrow> json \<Rightarrow> (string list, unit) io" where
  "validateCreatePermissions' reg findOne this state input =
     for_each_until (validateCreatePermissions_step reg findOne this state input) (definitions this)"

text \<open>
  The restriction that one definition contributes, and the restrictions one call of
  \<open>generateCondition\<close> pushes: one per definition that applies, in order.
\<close>

definition definition_restriction ::
  "registry \<Rightarrow> AuthContextMetadata \<Rightarrow> PermissionsManager \<Rightarrow> PermissionDefinition \<Rightarrow> where_options" where
  "definition_restriction reg state this definition' =
     restriction_of (pathMap_or (pm_pathMap this) (serializeKey reg this (key definition')))
       (as_array (get_prop (getMetadata state) (key definition')))"

definition pushed_restrictions ::
  "registry \<Rightarrow> AuthContextMetadata \<Rightarrow> PermissionsManager \<Rightarrow> where_options list" where
  "pushed_restrictions reg state this =
     map (definition_restriction reg state this)
       (filter (\<lambda>definition'. applies definition' state) (definitions this))"

text \<open>
  The two tests of \<open>validateCreatePermissions\<close> that end in a logged diagnostic: the
  path of the definition has no direct association, or the input carries no truthy
  primary key under the alias of the first association.
\<close>

definition cannot_enforce :: "registry \<Rightarrow> PermissionsManager \<Rightarrow> json \<Rightarrow> PermissionDefinition \<Rightarrow> bool" where
  "cannot_enforce reg this input definition' =
     (case extractAndValidatePathData reg (pm_model this) (pm_pathMap this)
             INVALID_PERMISSION_DEFINITION (serializeKey reg this (key definition')) of
        Inl e \<Rightarrow> False
      | Inr (associations', field') \<Rightarrow>
          (case associations' of
             [] \<Rightarrow> True
           | directAssociation # rest \<Rightarrow>
               \<not> truthy (get_prop (get_prop input (as directAssociation))
                           (primaryKeyAttribute (reg (target directAssociation))))))"

text \<open>Whether the path of a definition resolves on the manager's model.\<close>

definition path_valid :: "registry \<Rightarrow> PermissionsManager \<Rightarrow> PermissionDefinition \<Rightarrow> bool" where
  "path_valid reg this d =
     (case extractAndValidatePathData reg (pm_model this) (pm_pathMap this)
             INVALID_PERMISSION_DEFINITION (serializeKey reg this (key d)) of
        Inl e \<Rightarrow> False | Inr r \<Rightarrow> True)"

section \<open>The timestamps manager (timestamps-manager.ts)\<close>

definition INVALID_UPDATED_SINCE_FIELD :: "string \<Rightarrow> description" where
  "INVALID_UPDATED_SINCE_FIELD field' = \<lparr>code = 400, error = ''Bad Request'',
     message = ''The asked entity (or it'' @ [CHR 0x27] @ ''s relations) do not contain any timestamp fields. ''
       @ [CHR 0x27] @ field' @ [CHR 0x27] @ '' filter is therefore invalid.''\<rparr>"

definition INVALID_FORMAT_DATE_TIME :: "string \<Rightarrow> description" where
  "INVALID_FORMAT_DATE_TIME field' = \<lparr>code = 400, error = ''Bad Request'',
     message = ''Provided '' @ [CHR 0x27] @ field' @ [CHR 0x27]
       @ '' property should be in ISO format: YYYY-MM-DDTHH:MM:SSZ.''\<rparr>"

definition INVALID_UPDATED_AT_HIERARCHY :: "string \<Rightarrow> string \<Rightarrow> description" where
  "INVALID_UPDATED_AT_HIERARCHY source target' = \<lparr>code = 500, error = ''Internal Server Error'',
     message = ''No association could be found for the source model ('' @ source
       @ '') to the target model ('' @ target'
       @ ''). Check the updatedAtHierarchy on your TimestampsManager.''\<rparr>"

text \<open>\<open>UpdatedAtHierarchy\<close>: a model and the hierarchies it includes.\<close>

datatype UpdatedAtHierarchy = Hierarchy string "UpdatedAtHierarchy list"

text \<open>
  The fields of a \<open>TimestampsManager\<close>. \<open>isISOFormat\<close> is the date check of the moment
  library, \<open>moment(date, moment.ISO_8601).isValid()\<close>.
\<close>

record TimestampsManager =
  tm_model :: Model
  updatedAtHierarchy :: "UpdatedAtHierarchy list"
  isISOFormat :: "string \<Rightarrow> bool"

definition getUpdatedAtColumn :: "Model \<Rightarrow> string" where
  "getUpdatedAtColumn model = (case updatedAt model of Some c \<Rightarrow> c | None \<Rightarrow> ''updated_at'')"

definition extractAssociationName :: "Model \<Rightarrow> string \<Rightarrow> failure + string" where
  "extractAssociationName sourceModel targetModel =
     (case find (\<lambda>association. target association = targetModel)
             (map snd (associations sourceModel)) of
        None \<Rightarrow> Inl (new_ApplicationError
                       (INVALID_UPDATED_AT_HIERARCHY (name sourceModel) targetModel) None)
      | Some association \<Rightarrow> Inr (as association))"

text \<open>
  \<open>getUpdatedAtColumns\<close> pushes onto one \<open>columns\<close> array that all recursive calls
  share, and returns the flattened results of the children, or the array itself at a
  leaf. The array is threaded through; \<open>path\<close> is \<open>None\<close> when undefined.
\<close>

fun getUpdatedAtColumns ::
    "registry \<Rightarrow> string \<Rightarrow> string \<Rightarrow> UpdatedAtHierarchy \<Rightarrow> string option \<Rightarrow> string list
       \<Rightarrow> failure + (string list \<times> string list)"
  and getUpdatedAtColumns_children ::
    "registry \<Rightarrow> string \<Rightarrow> string \<Rightarrow> Model \<Rightarrow> string option \<Rightarrow> UpdatedAtHierarchy list
       \<Rightarrow> string list \<Rightarrow> failure + (string list \<times> string list)" where
  "getUpdatedAtColumns reg separator affix (Hierarchy model_name include') path columns =
     (let model = reg model_name;
          tableAffix = (if affix = [] then ''`'' else []);
          columns' =
            (if timestamps model
             then columns @ [affix @ tableAffix
                    @ (case path of Some p \<Rightarrow> if p = [] then name model else p
                                  | None \<Rightarrow> name model)
                    @ tableAffix @ ''.'' @ getUpdatedAtColumn model @ affix]
             else columns)
      in if include' \<noteq> []
         then getUpdatedAtColumns_children reg separator affix model path include' columns'
         else Inr (columns', columns'))"
| "getUpdatedAtColumns_children reg separator affix model path [] columns = Inr ([], columns)"
| "getUpdatedAtColumns_children reg separator affix model path (Hierarchy child_name ci # rest) columns =
     (case extractAssociationName model child_name of
        Inl e \<Rightarrow> Inl e
      | Inr associationName \<Rightarrow>
          (case getUpdatedAtColumns reg separator affix (Hierarchy child_name ci)
                  (Some ((case path of Some p \<Rightarrow> if p = [] then [] else p @ separator
                                     | None \<Rightarrow> []) @ associationName))
                  columns of
             Inl e \<Rightarrow> Inl e
           | Inr (result, columns') \<Rightarrow>
               (case getUpdatedAtColumns_children reg separator affix model path rest columns' of
                  Inl e \<Rightarrow> Inl e
                | Inr (results, columns'') \<Rightarrow> Inr (result @ results, columns''))))"

text \<open>\<open>hasTimestamps\<close>: the model or a model of the hierarchy has timestamps enabled.\<close>

fun hierarchy_models :: "UpdatedAtHierarchy \<Rightarrow> string list" where
  "hierarchy_models (Hierarchy m include') = m # concat (map hierarchy_models include')"

definition hasTimestamps :: "registry \<Rightarrow> TimestampsManager \<Rightarrow> bool" where
  "hasTimestamps reg this =
     list_ex timestamps
       (tm_model this # map reg (concat (map hierarchy_models (updatedAtHierarchy this))))"

text \<open>\<open>_.uniq\<close>: the first occurrence of each element stays.\<close>

definition uniq :: "'a list \<Rightarrow> 'a list" where
  "uniq xs = rev (remdups (rev xs))"

definition generateUpdatedAtFilter ::
  "registry \<Rightarrow> TimestampsManager \<Rightarrow> string \<Rightarrow> string option \<Rightarrow> string \<Rightarrow> failure + where_options" where
  "generateUpdatedAtFilter reg this value' operator queryPath =
     (if \<not> hasTimestamps reg this
      then Inl (new_ApplicationError (INVALID_UPDATED_SINCE_FIELD queryPath) None)
      else if \<not> isISOFormat this value'
      then Inl (new_ApplicationError (INVALID_FORMAT_DATE_TIME queryPath) None)
      else
        (case getUpdatedAtColumns reg ''.'' ''$''
                (Hierarchy (name (tm_model this)) (updatedAtHierarchy this)) None [] of
           Inl e \<Rightarrow> Inl e
         | Inr (updatedAtColumns, _) \<Rightarrow>
             Inr (WhereOr (map (\<lambda>path. WhereOp path (Op_lookup operator) (JStr value'))
                             (uniq updatedAtColumns)))))"

section \<open>The filters generator (filters-generator.ts)\<close>

definition VALID_OPERATORS :: "string list" where
  "VALID_OPERATORS = [''eq'', ''like'', ''gt'', ''gte'', ''lt'', ''lte'', ''ne'', ''in'',
     ''notIn'', ''is'', ''not'']"

definition INVALID_FILTER_OPERATOR :: "string option \<Rightarrow> description" where
  "INVALID_FILTER_OPERATOR operator = \<lparr>code = 400, error = ''Bad Request'',
     message = ''Provided filter operator '' @ [CHR 0x27]
       @ (case operator of Some s \<Rightarrow> s | None \<Rightarrow> ''undefined'') @ [CHR 0x27]
       @ '' is invalid.''\<rparr>"

definition INVALID_FILTER_PARAMETER :: description where
  "INVALID_FILTER_PARAMETER = \<lparr>code = 400, error = ''Bad Request'',
     message = ''Provided value for '' @ [CHR 0x27] @ ''filter'' @ [CHR 0x27]
       @ '' parameter is invalid.''\<rparr>"

definition INVALID_IS_OPERATOR :: description where
  "INVALID_IS_OPERATOR = \<lparr>code = 400, error = ''Bad Request'',
     message = ''Provided filter operator '' @ [CHR 0x27] @ ''is'' @ [CHR 0x27]
       @ '' can only have '' @ [CHR 0x27] @ ''null'' @ [CHR 0x27] @ '' value.''\<rparr>"

definition DEFAULT_SEARCH_FIELDS :: "string list" where
  "DEFAULT_SEARCH_FIELDS = [''id'', ''name'']"

definition default_operatorMap :: "(string \<times> string) list" where
  "default_operatorMap = [(''ge'', ''gte''), (''le'', ''lte''), (''ct'', ''like''), (''isNot'', ''not'')]"

text \<open>
  The fields of a \<open>FiltersGenerator\<close>. The model of the timestamps manager is the
  generator's model.
\<close>

record FiltersGenerator =
  fg_model :: Model
  fg_pathMap :: pathMap
  searchFields :: "string list"
  operatorMap :: "(string \<times> string) list"
  filters :: "where_options list"
  fg_includes :: "includeable list"
  timestampsManager :: "TimestampsManager option"

definition new_FiltersGenerator :: "Model \<Rightarrow> pathMap \<Rightarrow> TimestampsManager option \<Rightarrow> FiltersGenerator" where
  "new_FiltersGenerator model pm tm =
     \<lparr>fg_model = model, fg_pathMap = pm, searchFields = DEFAULT_SEARCH_FIELDS,
      operatorMap = default_operatorMap, filters = [], fg_includes = [],
      timestampsManager = tm\<rparr>"

definition validateFilter :: "string \<Rightarrow> string option \<Rightarrow> failure + unit" where
  "validateFilter value' operator =
     (if \<not> (case operator of Some s \<Rightarrow> s \<in> set VALID_OPERATORS | None \<Rightarrow> False)
      then Inl (new_ApplicationError (INVALID_FILTER_OPERATOR operator) None)
      else if operator = Some ''is'' \<and> value' \<notin> set [''null'', ''empty'']
      then Inl (new_ApplicationError INVALID_IS_OPERATOR None)
      else Inr ())"

text \<open>
  White space as the regular expressions \<open>\s\<close> see it, within the characters of a
  \<open>string\<close> here: tab, line feed, vertical tab, form feed, carriage return and space.
\<close>

definition is_space :: "char \<Rightarrow> bool" where
  "is_space c = ((of_char c :: nat) \<in> set [9, 10, 11, 12, 13, 32])"

text \<open>
  \<open>value.split(/\s*,\s*/)\<close>: split at the commas; the white space before and after a
  comma belongs to the separator.
\<close>

fun trim_between :: "string list \<Rightarrow> string list" where
  "trim_between [] = []"
| "trim_between [x] = [x]"
| "trim_between (x # y # ys) =
     rev (dropWhile is_space (rev x)) # trim_between (dropWhile is_space y # ys)"

definition split_commas :: "string \<Rightarrow> string list" where
  "split_commas s = trim_between (split_on CHR '','' s)"

text \<open>
  \<open>generateFilter\<close>. \<open>fieldType\<close> is the key of the data type; a caller that passes none
  gets the default, \<open>BOOLEAN\<close>.
\<close>

definition generateFilter :: "path_entry \<Rightarrow> string \<Rightarrow> string option \<Rightarrow> string \<Rightarrow> where_options" where
  "generateFilter column value' operator fieldType =
     (let serializedValue0 = JStr value';
          serializedValue1 =
            (if fieldType = ''BOOLEAN''
             then (if value' = ''false'' then JBool False
                   else if value' = ''true'' then JBool True else serializedValue0)
             else serializedValue0);
          serializedValue2 =
            (if operator = Some ''like'' then JStr (''%'' @ value' @ ''%'') else serializedValue1);
          serializedValue3 =
            (if operator = Some ''is'' \<or> operator = Some ''not''
             then (if value' = ''empty'' then JStr []
                   else if value' = ''null'' then JNull else serializedValue2)
             else serializedValue2);
          serializedOperator =
            (if operator = Some ''is'' \<and> value' = ''empty'' then Some ''eq'' else operator);
          serializedValue =
            (if operator = Some ''in'' \<or> operator = Some ''notIn''
             then JArr (map JStr (split_commas value')) else serializedValue3)
      in case column of
           PathLiteral l \<Rightarrow> WhereLiteral l (Op_lookup serializedOperator) serializedValue
         | PathString c \<Rightarrow>
             WhereOp (serializeColumnName c) (Op_lookup serializedOperator) serializedValue)"

text \<open>
  \<open>buildFilter\<close>: the filter is split at every white space character; the first two
  pieces are the path and the operator (\<open>undefined\<close> when there is no second piece), the
  rest joined by spaces is the value.
\<close>

definition buildFilter :: "registry \<Rightarrow> FiltersGenerator \<Rightarrow> string \<Rightarrow> failure + where_options" where
  "buildFilter reg this filter' =
     (let pieces = split_where is_space filter';
          queryPath = hd pieces;
          queryOperator = (case tl pieces of [] \<Rightarrow> None | q # _ \<Rightarrow> Some q);
          rest = drop 2 pieces;
          value' = join '' '' rest;
          operator =
            (case queryOperator of
               None \<Rightarrow> None
             | Some q \<Rightarrow>
                 (case map_of (operatorMap this) q of
                    Some mapped \<Rightarrow> if mapped = [] then Some q else Some mapped
                  | None \<Rightarrow> Some q))
      in if queryPath \<in> set [''updated_since'', ''updated_at'']
            \<and> timestampsManager this \<noteq> None
         then (case timestampsManager this of
                 Some tm \<Rightarrow> generateUpdatedAtFilter reg tm value' operator queryPath
               | None \<Rightarrow> Inl (OtherError ''TypeError''))
         else
           (case extractAndValidatePathData reg (fg_model this) (fg_pathMap this)
                   INVALID_FILTER_PARAMETER queryPath of
              Inl e \<Rightarrow> Inl e
            | Inr (associations', field') \<Rightarrow>
                (case field' of
                   PathLiteral l \<Rightarrow> Inr (generateFilter (PathLiteral l) value' operator ''BOOLEAN'')
                 | PathString f \<Rightarrow>
                     (let filterModel = getLastAssociationModel reg (fg_model this)
                                          (map Some associations')
                      in case map_of (rawAttributes filterModel) f of
                           None \<Rightarrow> Inl (OtherError ''TypeError'')
                         | Some attribute \<Rightarrow>
                             (let databaseField = field attribute;
                                  column = join ''.'' (map as associations' @ [databaseField])
                              in case validateFilter value' operator of
                                   Inl e \<Rightarrow> Inl e
                                 | Inr _ \<Rightarrow>
                                     Inr (generateFilter (PathString column) value' operator
                                            (type_key attribute)))))))"



section \<open>The storage client\<close>

text \<open>
  The generator talks to the database through Sequelize. This section is a small
  in-memory stand-in for the calls the repository makes: a table of rows per model, and
  an auto-increment counter per model. A row keeps the columns of its model only.

  What the database itself decides is a parameter, the \<open>storage_engine\<close>: whether a row
  satisfies a comparison \<open>{ [column]: { [Op.x]: value } }\<close> (the column may be a nested
  \<open>$association.column$\<close>, reached through joins) or a comparison on a literal
  expression, and how rows are sorted. The theorems hold for every engine.
\<close>

type_synonym row = "(string \<times> json) list"

record database =
  tables :: "string \<Rightarrow> row list"
  sequences :: "string \<Rightarrow> int"

record storage_engine =
  holds_op :: "database \<Rightarrow> Model \<Rightarrow> row \<Rightarrow> string \<Rightarrow> opkey option \<Rightarrow> json \<Rightarrow> bool"
  holds_literal :: "database \<Rightarrow> Model \<Rightarrow> row \<Rightarrow> string \<Rightarrow> opkey option \<Rightarrow> json \<Rightarrow> bool"
  sort_rows :: "order_item list \<Rightarrow> row list \<Rightarrow> row list"

text \<open>A model instance: its model class and its \<open>dataValues\<close>.\<close>

record Instance =
  instance_model :: string
  dataValues :: row

text \<open>
  The value of a column in a row (a missing column is \<open>NULL\<close>), and the property
  \<open>item[k]\<close> of an instance.
\<close>

definition row_value :: "row \<Rightarrow> string \<Rightarrow> json" where
  "row_value r c = (case map_of r c of Some v \<Rightarrow> (if v = JUndefined then JNull else v) | None \<Rightarrow> JNull)"

definition instance_get :: "Instance \<Rightarrow> string \<Rightarrow> json" where
  "instance_get item k = (case map_of (dataValues item) k of Some v \<Rightarrow> v | None \<Rightarrow> JUndefined)"

text \<open>
  \<open>k in item\<close> for a model instance: the attributes of the model are accessors on the
  prototype of every instance, whatever columns were selected.
\<close>

definition instance_has :: "registry \<Rightarrow> Instance \<Rightarrow> string \<Rightarrow> bool" where
  "instance_has reg item k =
     (has_key (rawAttributes (reg (instance_model item))) k \<or> has_key (dataValues item) k)"

text \<open>
  Whether a row satisfies a \<open>where\<close>. An \<open>undefined\<close> entry of \<open>Op.and\<close> is dropped;
  an empty \<open>Op.or\<close> matches nothing.
\<close>

fun where_holds :: "storage_engine \<Rightarrow> database \<Rightarrow> Model \<Rightarrow> row \<Rightarrow> where_options \<Rightarrow> bool" where
  "where_holds eng db m r (WhereAnd ws) = list_all (where_holds eng db m r) ws"
| "where_holds eng db m r (WhereOr ws) = list_ex (where_holds eng db m r) ws"
| "where_holds eng db m r (WhereField c v) = (row_value r c = v)"
| "where_holds eng db m r (WhereOp c operator v) = holds_op eng db m r c operator v"
| "where_holds eng db m r (WhereLiteral l operator v) = holds_literal eng db m r l operator v"
| "where_holds eng db m r WhereUndefined = True"

definition matching_rows :: "storage_engine \<Rightarrow> database \<Rightarrow> Model \<Rightarrow> where_options option \<Rightarrow> row list" where
  "matching_rows eng db m w =
     filter (\<lambda>r. case w of None \<Rightarrow> True | Some w' \<Rightarrow> where_holds eng db m r w')
       (tables db (name m))"

text \<open>
  \<open>LIMIT\<close> and \<open>OFFSET\<close>: the database rejects a statement whose limit or offset is
  negative or no number.
\<close>

definition paginate :: "json option \<Rightarrow> json option \<Rightarrow> 'a list \<Rightarrow> failure + 'a list" where
  "paginate limit offset xs =
     (case (limit, offset) of
        (None, None) \<Rightarrow> Inr xs
      | (Some (JNum n), None) \<Rightarrow>
          if n < 0 then Inl (OtherError ''SequelizeDatabaseError'') else Inr (take (nat n) xs)
      | (None, Some (JNum k)) \<Rightarrow>
          if k < 0 then Inl (OtherError ''SequelizeDatabaseError'') else Inr (drop (nat k) xs)
      | (Some (JNum n), Some (JNum k)) \<Rightarrow>
          if n < 0 \<or> k < 0 then Inl (OtherError ''SequelizeDatabaseError'')
          else Inr (take (nat n) (drop (nat k) xs))
      | _ \<Rightarrow> Inl (OtherError ''SequelizeDatabaseError''))"

definition instance_of :: "Model \<Rightarrow> row \<Rightarrow> Instance" where
  "instance_of m r = \<lparr>instance_model = name m, dataValues = r\<rparr>"

text \<open>\<open>Model.findAll(options)\<close>\<close>

definition findAll :: "storage_engine \<Rightarrow> Model \<Rightarrow> FindOptions \<Rightarrow> database \<Rightarrow> failure + Instance list" where
  "findAll eng m options db =
     (let rows = matching_rows eng db m (fo_where options);
          sorted = (case fo_order options of None \<Rightarrow> rows | Some order \<Rightarrow> sort_rows eng order rows)
      in case paginate (fo_limit options) (fo_offset options) sorted of
           Inl e \<Rightarrow> Inl e
         | Inr page \<Rightarrow> Inr (map (instance_of m) page))"

text \<open>
  \<open>Model.findAndCountAll(options)\<close>: the rows of \<open>findAll\<close>, and the count of the
  matching rows without limit and offset. Without \<open>group\<close> the count is a number. With
  \<open>group\<close> it is an array with one entry per group; the group is the primary key here,
  so there is one entry per distinct primary key among the matching rows.
\<close>

definition findAndCountAll ::
  "storage_engine \<Rightarrow> Model \<Rightarrow> FindOptions \<Rightarrow> database \<Rightarrow> failure + (Instance list \<times> json)" where
  "findAndCountAll eng m options db =
     (let rows = matching_rows eng db m (fo_where options);
          count = (case fo_group options of
                     None \<Rightarrow> JNum (int (length rows))
                   | Some g \<Rightarrow>
                       JArr (map (\<lambda>pk. JObj [(primaryKeyField m, pk), (''count'', JNum 1)])
                               (remdups (map (\<lambda>r. row_value r (primaryKeyAttribute m)) rows))))
      in case findAll eng m options db of
           Inl e \<Rightarrow> Inl e
         | Inr found \<Rightarrow> Inr (found, count))"

text \<open>\<open>Model.findByPk(pk)\<close>: the instance, or \<open>null\<close>.\<close>

definition same_key :: "Model \<Rightarrow> json \<Rightarrow> row \<Rightarrow> bool" where
  "same_key m pk r =
     (pk \<noteq> JNull \<and> pk \<noteq> JUndefined \<and> row_value r (primaryKeyAttribute m) = pk)"

definition findByPk :: "Model \<Rightarrow> json \<Rightarrow> database \<Rightarrow> Instance option" where
  "findByPk m pk db = map_option (instance_of m) (find (same_key m pk) (tables db (name m)))"

text \<open>The columns of the model among the given values; \<open>undefined\<close> values are no values.\<close>

definition model_columns :: "Model \<Rightarrow> row \<Rightarrow> row" where
  "model_columns m values =
     filter (\<lambda>(k, v). has_key (rawAttributes m) k \<and> v \<noteq> JUndefined) values"

text \<open>The default values of the attributes that the given row does not set.\<close>

definition defaults_for :: "Model \<Rightarrow> row \<Rightarrow> row" where
  "defaults_for m r =
     map (\<lambda>(k, a). (k, defaultValue a))
       (filter (\<lambda>(k, a). defaultValue a \<noteq> JUndefined \<and> \<not> has_key r k) (rawAttributes m))"

text \<open>
  \<open>Model.create(values)\<close>: the row is inserted, with the next value of the counter as
  its primary key when the values carry none, and with the defaults of the model.
\<close>

definition create :: "Model \<Rightarrow> row \<Rightarrow> database \<Rightarrow> Instance \<times> database" where
  "create m values db =
     (let given = model_columns m values;
          needs_key = (row_value given (primaryKeyAttribute m) = JNull);
          keyed = (if needs_key
                   then set_key given (primaryKeyAttribute m) (JNum (sequences db (name m)))
                   else given);
          r = keyed @ defaults_for m keyed
      in (instance_of m r,
          db\<lparr>tables := (tables db)(name m := tables db (name m) @ [r]),
             sequences := (if needs_key
                           then (sequences db)(name m := sequences db (name m) + 1)
                           else sequences db)\<rparr>))"

text \<open>\<open>Model.update(values, { where })\<close> and \<open>Model.destroy({ where })\<close> on the class.\<close>

definition update_where :: "storage_engine \<Rightarrow> Model \<Rightarrow> row \<Rightarrow> where_options \<Rightarrow> database \<Rightarrow> database" where
  "update_where eng m values w db =
     db\<lparr>tables := (tables db)(name m :=
        map (\<lambda>r. if where_holds eng db m r w then spread r (model_columns m values) else r)
          (tables db (name m)))\<rparr>"

definition destroy_where :: "storage_engine \<Rightarrow> Model \<Rightarrow> where_options \<Rightarrow> database \<Rightarrow> database" where
  "destroy_where eng m w db =
     db\<lparr>tables := (tables db)(name m :=
        filter (\<lambda>r. \<not> where_holds eng db m r w) (tables db (name m)))\<rparr>"

text \<open>
  \<open>item.update(values)\<close> and \<open>item.destroy()\<close> on an instance. \<open>update\<close> sets the values
  on the instance itself and saves them to its row: the instance the caller holds is
  changed in place, so the updated instance is returned with the database.
\<close>

definition instance_update :: "registry \<Rightarrow> Instance \<Rightarrow> row \<Rightarrow> database \<Rightarrow> Instance \<times> database" where
  "instance_update reg item values db =
     (let m = reg (instance_model item);
          changes = model_columns m values;
          pk = instance_get item (primaryKeyAttribute m)
      in (item\<lparr>dataValues := spread (dataValues item) changes\<rparr>,
          db\<lparr>tables := (tables db)(name m :=
             map (\<lambda>r. if same_key m pk r then spread r changes else r) (tables db (name m)))\<rparr>))"

definition instance_destroy :: "registry \<Rightarrow> Instance \<Rightarrow> database \<Rightarrow> database" where
  "instance_destroy reg item db =
     (let m = reg (instance_model item);
          pk = instance_get item (primaryKeyAttribute m)
      in db\<lparr>tables := (tables db)(name m :=
            filter (\<lambda>r. \<not> same_key m pk r) (tables db (name m)))\<rparr>)"

text \<open>
  \<open>Model.upsert(values)\<close>: the row of that primary key is updated when there is one,
  otherwise the values are inserted. The instance returned is built from the values.
\<close>

definition upsert :: "Model \<Rightarrow> row \<Rightarrow> database \<Rightarrow> Instance \<times> database" where
  "upsert m values db =
     (let pk = row_value values (primaryKeyAttribute m)
      in if list_ex (same_key m pk) (tables db (name m))
         then (instance_of m (model_columns m values),
               db\<lparr>tables := (tables db)(name m :=
                  map (\<lambda>r. if same_key m pk r then spread r (model_columns m values) else r)
                    (tables db (name m)))\<rparr>)
         else create m values db)"

text \<open>
  \<open>sequelize.transaction(callback)\<close>: the changes of a callback that throws are rolled
  back.
\<close>

definition transaction :: "(database, 'a) io \<Rightarrow> (database, 'a) io" where
  "transaction callback db =
     (case callback db of
        (Inl e, db') \<Rightarrow> (Inl e, db)
      | (Inr a, db') \<Rightarrow> (Inr a, db'))"

section \<open>The repository (repository.ts)\<close>

text \<open>\<open>EntityStatus\<close> and the values of its members (status.model.ts).\<close>

datatype EntityStatus = REGULAR | ARCHIVED | DELETED

fun status_value :: "EntityStatus \<Rightarrow> json" where
  "status_value REGULAR = JNum 1"
| "status_value ARCHIVED = JNum 2"
| "status_value DELETED = JNum 3"

text \<open>The \<open>Info\<close> model of the audit records (info.model.ts).\<close>

definition Info :: Model where
  "Info = \<lparr>name = ''Info'', primaryKeyAttribute = ''id'', primaryKeyField = ''id'',
     rawAttributes = map (\<lambda>(n, t). (n, \<lparr>allowNull = False, field = n, type_key = t,
                                           defaultValue = JUndefined\<rparr>))
       [(''id'', ''INTEGER''), (''created_by_id'', ''INTEGER''), (''modified_by_id'', ''INTEGER''),
        (''deleted_by_id'', ''INTEGER''), (''created_at'', ''DATE''), (''modified_at'', ''DATE''),
        (''deleted_at'', ''DATE'')],
     associations = [], timestamps = False, updatedAt = None\<rparr>"

text \<open>
  The fields of a \<open>SequelizeRepository\<close>. The permissions manager and the filters
  generator are the objects the repository was constructed with: their accumulators
  change when the repository generates a condition. The order generator is not part of
  the sources at hand; it is the function from the request to the \<open>order\<close> it generates.
\<close>

record Repository =
  repo_model :: Model
  softDeleteStatus :: EntityStatus
  fetchCondition :: FindOptions
  permissionsManager :: PermissionsManager
  filtersGenerator :: FiltersGenerator
  orderGenerator :: "ContextRequest \<Rightarrow> failure + order_item list"
  repo_timestampsManager :: "TimestampsManager option"

definition new_Repository ::
  "Model \<Rightarrow> FindOptions \<Rightarrow> PermissionsManager \<Rightarrow> FiltersGenerator
     \<Rightarrow> (ContextRequest \<Rightarrow> failure + order_item list) \<Rightarrow> TimestampsManager option \<Rightarrow> Repository" where
  "new_Repository model fc pm fg og tm =
     \<lparr>repo_model = model, softDeleteStatus = ARCHIVED, fetchCondition = fc,
      permissionsManager = pm, filtersGenerator = fg, orderGenerator = og,
      repo_timestampsManager = tm\<rparr>"

text \<open>What a repository method works on: the repository object and the database.\<close>

record world =
  w_repository :: Repository
  w_database :: database

definition on_database :: "(database, 'a) io \<Rightarrow> (world, 'a) io" where
  "on_database m w =
     (case m (w_database w) of (r, db') \<Rightarrow> (r, w\<lparr>w_database := db'\<rparr>))"

subsection \<open>The condition of a fetch\<close>

text \<open>\<open>FiltersGenerator.generateCondition\<close> with \<open>buildFilters\<close> and \<open>buildSearchFilter\<close>.\<close>

definition buildFilters_step :: "registry \<Rightarrow> json \<Rightarrow> (FiltersGenerator, unit) io" where
  "buildFilters_step reg filter' this =
     (case filter' of
        JStr s \<Rightarrow>
          (case buildFilter reg this s of
             Inl e \<Rightarrow> (Inl e, this)
           | Inr filterValue \<Rightarrow> (Inr (), this\<lparr>filters := filters this @ [filterValue]\<rparr>))
      | _ \<Rightarrow> (Inl (OtherError ''TypeError''), this))"

definition buildSearchFilter :: "registry \<Rightarrow> string \<Rightarrow> (FiltersGenerator, unit) io" where
  "buildSearchFilter reg search this =
     (case map_throwing (\<lambda>field'. buildFilter reg this (field' @ '' ct '' @ search))
             (searchFields this) of
        Inl e \<Rightarrow> (Inl e, this)
      | Inr searchConditions \<Rightarrow>
          (Inr (), this\<lparr>filters := filters this @ [WhereOr searchConditions]\<rparr>))"

definition FiltersGenerator_generateCondition ::
  "registry \<Rightarrow> AuthContextMetadata \<Rightarrow> ContextRequest option
     \<Rightarrow> (FiltersGenerator, FindOptions option) io" where
  "FiltersGenerator_generateCondition reg state request =
     (case request of
        None \<Rightarrow> io_return None
      | Some rq \<Rightarrow>
          io_bind (for_each (buildFilters_step reg) (getArray rq ''filter'')) (\<lambda>_.
          io_bind (case getString rq ''q'' of
                     None \<Rightarrow> io_return ()
                   | Some search \<Rightarrow>
                       if search = [] then io_return () else buildSearchFilter reg search) (\<lambda>_.
          (\<lambda>this.
             (Inr (Some (empty_options
                    \<lparr>fo_where := (if filters this \<noteq> [] then Some (WhereAnd (filters this))
                                   else None),
                     fo_include := (if fg_includes this \<noteq> [] then Some (fg_includes this)
                                    else None)\<rparr>)),
              this)))))"

text \<open>\<open>generateUpdatedAtLiteral\<close> of the timestamps manager.\<close>

definition coalesce :: "string \<Rightarrow> string" where
  "coalesce c = ''COALESCE('' @ c @ '',DATE('' @ [CHR 0x27] @ ''1970-1-1'' @ [CHR 0x27] @ ''))''"

definition generateUpdatedAtLiteral :: "registry \<Rightarrow> TimestampsManager \<Rightarrow> failure + string" where
  "generateUpdatedAtLiteral reg this =
     (case getUpdatedAtColumns reg ''->'' []
             (Hierarchy (name (tm_model this)) (updatedAtHierarchy this)) None [] of
        Inl e \<Rightarrow> Inl e
      | Inr (cols, _) \<Rightarrow>
          (let updatedAtColumns = uniq cols;
               updatedAtClause =
                 (case updatedAtColumns of
                    [c] \<Rightarrow> coalesce c
                  | _ \<Rightarrow> ''MAX(GREATEST('' @ join '','' (map coalesce updatedAtColumns)
                          @ '')) OVER (PARTITION BY '' @ name (tm_model this) @ ''.''
                          @ primaryKeyAttribute (tm_model this) @ '')'')
           in Inr (''CAST('' @ updatedAtClause @ '' AS DATETIME)'')))"

definition updatedAtColumn :: string where
  "updatedAtColumn = ''updated_at''"

definition generateBaseFetchCondition :: "registry \<Rightarrow> Repository \<Rightarrow> failure + FindOptions" where
  "generateBaseFetchCondition reg this =
     (case repo_timestampsManager this of
        None \<Rightarrow> Inr (fetchCondition this)
      | Some tm \<Rightarrow>
          (case generateUpdatedAtLiteral reg tm of
             Inl e \<Rightarrow> Inl e
           | Inr updatedAtLiteral \<Rightarrow>
               (let (exclude, include') =
                      (case fo_attributes (fetchCondition this) of
                         None \<Rightarrow> ([], [])
                       | Some a \<Rightarrow> a)
                in Inr ((fetchCondition this)
                          \<lparr>fo_attributes :=
                             Some (exclude, include' @ [(updatedAtLiteral, updatedAtColumn)])\<rparr>))))"

definition toArray :: "'a list option \<Rightarrow> 'a list" where
  "toArray entity = (case entity of None \<Rightarrow> [] | Some xs \<Rightarrow> xs)"

definition generateIncludeClause :: "Repository \<Rightarrow> FindOptions \<Rightarrow> FindOptions option \<Rightarrow> FindOptions" where
  "generateIncludeClause this permissionsCondition filtersCondition =
     (let original = toArray (fo_include (fetchCondition this))
                       @ toArray (fo_include permissionsCondition)
                       @ toArray (case filtersCondition of None \<Rightarrow> None | Some f \<Rightarrow> fo_include f);
          filtered = uniq original
      in empty_options\<lparr>fo_include := Some filtered\<rparr>)"

text \<open>\<open>_.compact\<close> of three optional clauses.\<close>

definition compact :: "'a option list \<Rightarrow> 'a list" where
  "compact xs = List.map_filter (\<lambda>x. x) xs"

definition generateWhereClause :: "Repository \<Rightarrow> FindOptions \<Rightarrow> FindOptions option \<Rightarrow> FindOptions" where
  "generateWhereClause this permissionsCondition filtersCondition =
     (let clauses = compact [fo_where (fetchCondition this), fo_where permissionsCondition,
                             (case filtersCondition of None \<Rightarrow> None | Some f \<Rightarrow> fo_where f)]
      in case clauses of
           [] \<Rightarrow> empty_options
         | [c] \<Rightarrow> empty_options\<lparr>fo_where := Some c\<rparr>
         | _ \<Rightarrow> empty_options\<lparr>fo_where := Some (WhereAnd clauses)\<rparr>)"

text \<open>
  The repository's \<open>generateCondition\<close>: both generators run on the objects the
  repository holds, and leave them changed.
\<close>

definition Repository_generateCondition ::
  "registry \<Rightarrow> AuthContextMetadata \<Rightarrow> ContextRequest option \<Rightarrow> (Repository, FindOptions) io" where
  "Repository_generateCondition reg state request this =
     (case generateCondition reg state (permissionsManager this) of
        (Inl e, pm') \<Rightarrow> (Inl e, this\<lparr>permissionsManager := pm'\<rparr>)
      | (Inr permissionsCondition, pm') \<Rightarrow>
          (case FiltersGenerator_generateCondition reg state request (filtersGenerator this) of
             (Inl e, fg') \<Rightarrow> (Inl e, this\<lparr>permissionsManager := pm', filtersGenerator := fg'\<rparr>)
           | (Inr filtersCondition, fg') \<Rightarrow>
               (let this' = this\<lparr>permissionsManager := pm', filtersGenerator := fg'\<rparr>
                in case generateBaseFetchCondition reg this' of
                     Inl e \<Rightarrow> (Inl e, this')
                   | Inr base \<Rightarrow>
                       (Inr (spread_options
                               (spread_options base
                                  (generateIncludeClause this' permissionsCondition filtersCondition))
                               (generateWhereClause this' permissionsCondition filtersCondition)),
                        this'))))"

definition on_repository :: "(Repository, 'a) io \<Rightarrow> (world, 'a) io" where
  "on_repository m w =
     (case m (w_repository w) of (r, this') \<Rightarrow> (r, w\<lparr>w_repository := this'\<rparr>))"

text \<open>A read of the database that may fail.\<close>

definition read_database :: "(database \<Rightarrow> failure + 'a) \<Rightarrow> (world, 'a) io" where
  "read_database f w = (f (w_database w), w)"

subsection \<open>Reading\<close>

definition getItem ::
  "storage_engine \<Rightarrow> registry \<Rightarrow> AuthContextMetadata \<Rightarrow> json \<Rightarrow> ContextRequest option
     \<Rightarrow> (world, Instance) io" where
  "getItem eng reg state id' request =
     io_bind (on_repository (Repository_generateCondition reg state request)) (\<lambda>condition w.
       (let primaryKeyAttribute' = primaryKeyAttribute (repo_model (w_repository w))
        in io_bind
             (read_database (findAll eng (repo_model (w_repository w))
                (condition\<lparr>fo_where := Some (WhereAnd
                   [(case fo_where condition of None \<Rightarrow> WhereUndefined | Some c \<Rightarrow> c),
                    WhereField primaryKeyAttribute' id'])\<rparr>)))
             (\<lambda>items. case items of
                         [] \<Rightarrow> io_throw (new_ApplicationError ITEM_NOT_FOUND None)
                       | item # _ \<Rightarrow> io_return item) w))"

text \<open>
  The window of a list request: \<open>limit = Math.abs(request.getPageSize())\<close> and
  \<open>offset = limit * (page - 1)\<close>.
\<close>

definition list_window :: "ContextRequest \<Rightarrow> failure + (json \<times> json)" where
  "list_window request =
     (let page = getPage request
      in case getPageSize request of
           Inl e \<Rightarrow> Inl e
         | Inr pageSize \<Rightarrow>
             (let limit = js_abs pageSize;
                  offset = js_mul limit (js_sub page (JNum 1))
              in Inr (limit, offset)))"

text \<open>The options of the first query of \<open>getList\<close>: \<open>{ ...condition, ...order, limit, offset }\<close>.\<close>

definition matching_items_options :: "FindOptions \<Rightarrow> order_item list \<Rightarrow> json \<Rightarrow> json \<Rightarrow> FindOptions" where
  "matching_items_options condition order limit offset =
     (spread_options condition (empty_options\<lparr>fo_order := Some order\<rparr>))
       \<lparr>fo_limit := Some limit, fo_offset := Some offset\<rparr>"

definition generateListResultsCondition ::
  "registry \<Rightarrow> Repository \<Rightarrow> where_options \<Rightarrow> failure + FindOptions" where
  "generateListResultsCondition reg this matchingItemsCondition =
     (case generateBaseFetchCondition reg this of
        Inl e \<Rightarrow> Inl e
      | Inr baseFetchCondition \<Rightarrow>
          Inr (baseFetchCondition\<lparr>fo_where := Some (WhereAnd
                 [matchingItemsCondition,
                  (case fo_where baseFetchCondition of None \<Rightarrow> WhereUndefined | Some c \<Rightarrow> c)])\<rparr>))"

text \<open>\<open>x.length\<close>: a number has no such property.\<close>

fun js_length :: "json \<Rightarrow> json" where
  "js_length (JArr xs) = JNum (int (length xs))"
| "js_length (JStr s) = JNum (int (length s))"
| "js_length _ = JUndefined"

definition getList ::
  "storage_engine \<Rightarrow> registry \<Rightarrow> AuthContextMetadata \<Rightarrow> ContextRequest
     \<Rightarrow> (world, Instance list \<times> json) io" where
  "getList eng reg state request =
     io_bind (io_lift (list_window request)) (\<lambda>(limit, offset).
     io_bind (on_repository (Repository_generateCondition reg state (Some request))) (\<lambda>condition.
     io_bind (\<lambda>w. (orderGenerator (w_repository w) request, w)) (\<lambda>order w.
       (let model = repo_model (w_repository w)
        in io_bind
             (read_database (findAndCountAll eng model
                (matching_items_options condition order limit offset)))
             (\<lambda>(matchingItems, count).
                (let matchingItemsCondition =
                       WhereOp (primaryKeyAttribute model) (Op_lookup (Some ''in''))
                         (JArr (map (\<lambda>item. instance_get item (primaryKeyAttribute model))
                                  matchingItems))
                 in io_bind (io_lift (generateListResultsCondition reg (w_repository w)
                                        matchingItemsCondition)) (\<lambda>listResultsCondition.
                    io_bind (read_database (findAll eng model
                               (spread_options listResultsCondition
                                  (empty_options\<lparr>fo_order := Some order\<rparr>)))) (\<lambda>items.
                    io_return (items, js_length count))))) w))))"

subsection \<open>Writing\<close>

text \<open>\<open>Sequelize.fn("NOW")\<close>, the value the database replaces by the current time.\<close>

definition NOW :: json where
  "NOW = JObj [(''fn'', JStr ''NOW''), (''args'', JArr [])]"

text \<open>\<open>upsertInfo\<close>: \<open>id'\<close> is \<open>undefined\<close> when the caller passes none.\<close>

definition info_payload :: "AuthContextMetadata \<Rightarrow> string \<Rightarrow> json \<Rightarrow> row" where
  "info_payload state action id' =
     (let userId = get_prop (get_prop (getMetadata state) ''internal'') ''id''
      in spread
           (spread [(action @ ''_at'', NOW)]
              (if truthy userId then [(action @ ''_by_id'', userId)] else []))
           (if truthy id' then [(''id'', id')] else []))"

definition upsertInfo :: "AuthContextMetadata \<Rightarrow> string \<Rightarrow> json \<Rightarrow> (database, Instance) io" where
  "upsertInfo state action id' db =
     (case upsert Info (info_payload state action id') db of (result, db') \<Rightarrow> (Inr result, db'))"

definition getTargetModel :: "registry \<Rightarrow> Association \<Rightarrow> Model" where
  "getTargetModel reg association = reg (target association)"

definition isManyToManyRelation :: "Association \<Rightarrow> bool" where
  "isManyToManyRelation association = (associationType association = BELONGS_TO_MANY)"

definition getRelationModel :: "registry \<Rightarrow> Association \<Rightarrow> Model" where
  "getRelationModel reg association =
     (if isManyToManyRelation association then reg (through_model association)
      else getTargetModel reg association)"

text \<open>
  \<open>removeRelations\<close>. Reading \<open>allowNull\<close> of an attribute the relation model does not
  have throws a \<open>TypeError\<close>.
\<close>

definition removeRelations :: "storage_engine \<Rightarrow> registry \<Rightarrow> json \<Rightarrow> Association \<Rightarrow> (database, unit) io" where
  "removeRelations eng reg sourcePrimaryKey association db =
     (let relationModel = getRelationModel reg association;
          where' = WhereField (foreignKey association) sourcePrimaryKey
      in case map_of (rawAttributes relationModel) (foreignKey association) of
           None \<Rightarrow> (Inl (OtherError ''TypeError''), db)
         | Some attribute \<Rightarrow>
             if allowNull attribute
             then (Inr (), update_where eng relationModel [(foreignKey association, JNull)] where' db)
             else if has_key (rawAttributes relationModel) ''status_id''
             then (Inr (), update_where eng relationModel
                             [(''status_id'', status_value DELETED)] where' db)
             else (Inr (), destroy_where eng relationModel where' db))"

text \<open>The own entries of a payload object, and \<open>_.pick(object, keys)\<close>.\<close>

definition entries :: "json \<Rightarrow> row" where
  "entries v = (case v of JObj kvs \<Rightarrow> kvs | _ \<Rightarrow> [])"

definition pick :: "row \<Rightarrow> string list \<Rightarrow> row" where
  "pick object keys = List.map_filter (\<lambda>k. map_option (\<lambda>v. (k, v)) (map_of object k)) keys"

definition UNABLE_TO_FIND_ENTITY :: "json \<Rightarrow> description" where
  "UNABLE_TO_FIND_ENTITY pk = \<lparr>code = 500, error = ''Internal Server Error'',
     message = ''Unable to find entity to update: '' @ to_string pk\<rparr>"

text \<open>
  \<open>upsertEntity\<close> calls itself on the nested payloads. The body is written over the
  function \<open>rec\<close> that stands for these calls.

  The first loop: the associations whose foreign key is on the source model.
\<close>

type_synonym upsert = "AuthContextMetadata \<Rightarrow> Model \<Rightarrow> json \<Rightarrow> (database, Instance) io"

fun upsert_source_associations ::
  "upsert \<Rightarrow> registry \<Rightarrow> AuthContextMetadata \<Rightarrow> Model \<Rightarrow> row \<Rightarrow> row \<Rightarrow> (database, row) io" where
  "upsert_source_associations rec reg state model foreignKeyAttributes [] =
     io_return foreignKeyAttributes"
| "upsert_source_associations rec reg state model foreignKeyAttributes
     ((associationName, associationAttributes) # rest) =
     (case map_of (associations model) associationName of
        None \<Rightarrow> io_throw (OtherError ''TypeError'')
      | Some association \<Rightarrow>
          (let relationModel = getRelationModel reg association
           in io_bind (rec state relationModel associationAttributes) (\<lambda>entity.
              upsert_source_associations rec reg state model
                (set_key foreignKeyAttributes (foreignKey association)
                   (instance_get entity (primaryKeyAttribute relationModel)))
                rest)))"

text \<open>One entry of an array of a to-many association, after the old relations are removed.\<close>

definition upsert_entry ::
  "upsert \<Rightarrow> registry \<Rightarrow> AuthContextMetadata \<Rightarrow> Association \<Rightarrow> Model \<Rightarrow> json \<Rightarrow> json
     \<Rightarrow> (database, unit) io" where
  "upsert_entry rec reg state association relationModel sourcePrimaryKey attributesEntry =
     (if isManyToManyRelation association
      then
        (let targetModel = getTargetModel reg association;
             targetPrimaryKeyAttribute = primaryKeyAttribute targetModel
         in io_bind
              (if truthy (get_prop attributesEntry targetPrimaryKeyAttribute)
               then io_return (get_prop attributesEntry targetPrimaryKeyAttribute)
               else io_bind (rec state targetModel attributesEntry) (\<lambda>entity.
                      io_return (instance_get entity targetPrimaryKeyAttribute)))
              (\<lambda>targetPrimaryKey db.
                 (Inr (), snd (create relationModel
                    (spread (set_key [(foreignKey association, sourcePrimaryKey)]
                               (otherKey association) targetPrimaryKey)
                       (entries (get_prop attributesEntry ''through''))) db))))
      else
        io_bind (rec state relationModel
                   (JObj (spread (entries attributesEntry)
                            [(foreignKey association, sourcePrimaryKey)])))
          (\<lambda>_. io_return ()))"

text \<open>The second loop: one association whose foreign key is on the target model.\<close>

definition upsert_target_association ::
  "upsert \<Rightarrow> storage_engine \<Rightarrow> registry \<Rightarrow> AuthContextMetadata \<Rightarrow> Model \<Rightarrow> json
     \<Rightarrow> string \<times> json \<Rightarrow> (database, unit) io" where
  "upsert_target_association rec eng reg state model sourcePrimaryKey entry =
     (case entry of (associationName, associationAttributes) \<Rightarrow>
        (case map_of (associations model) associationName of
           None \<Rightarrow> io_throw (OtherError ''TypeError'')
         | Some association \<Rightarrow>
             (let relationModel = getRelationModel reg association
              in case associationAttributes of
                   JArr attributesEntries \<Rightarrow>
                     io_bind (removeRelations eng reg sourcePrimaryKey association) (\<lambda>_.
                       for_each (upsert_entry rec reg state association relationModel
                                   sourcePrimaryKey) attributesEntries)
                 | _ \<Rightarrow>
                     io_bind (rec state relationModel
                                (JObj (spread (entries associationAttributes)
                                         [(foreignKey association, sourcePrimaryKey)])))
                       (\<lambda>_. io_return ()))))"

definition foreign_key_on_source :: "Model \<Rightarrow> string \<times> json \<Rightarrow> bool" where
  "foreign_key_on_source model entry =
     (case map_of (associations model) (fst entry) of
        None \<Rightarrow> False
      | Some association \<Rightarrow> has_key (rawAttributes model) (foreignKey association))"

definition upsertEntity_body ::
  "upsert \<Rightarrow> storage_engine \<Rightarrow> registry \<Rightarrow> upsert" where
  "upsertEntity_body rec eng reg state model attributes =
     (let validAttributes = filter (\<lambda>(k, v). v \<noteq> JUndefined) (entries attributes);
          baseAttributes = pick validAttributes (map fst (rawAttributes model));
          associationsAttributes = pick validAttributes (map fst (associations model));
          foreignKeyOnSourceAssociations =
            filter (foreign_key_on_source model) associationsAttributes;
          foreignKeyOnTargetAssociations =
            filter (\<lambda>entry. \<not> foreign_key_on_source model entry) associationsAttributes;
          isUpdate = has_key baseAttributes (primaryKeyAttribute model);
          hasInfo = has_key (rawAttributes model) ''info_id''
      in io_bind (upsert_source_associations rec reg state model []
                    foreignKeyOnSourceAssociations) (\<lambda>foreignKeyAttributes0.
         io_bind (if hasInfo \<and> \<not> isUpdate
                  then io_bind (upsertInfo state ''created'' JUndefined) (\<lambda>info.
                         io_return (set_key foreignKeyAttributes0 ''info_id''
                                      (instance_get info ''id'')))
                  else io_return foreignKeyAttributes0) (\<lambda>foreignKeyAttributes.
         (let upsertAttributes = spread baseAttributes foreignKeyAttributes
          in io_bind
               (if \<not> isUpdate
                then (\<lambda>db. case create model upsertAttributes db of
                             (entity, db') \<Rightarrow> (Inr entity, db'))
                else (\<lambda>db.
                        case findByPk model (get_prop (JObj baseAttributes)
                                               (primaryKeyAttribute model)) db of
                          None \<Rightarrow>
                            (Inl (new_ApplicationError
                                    (UNABLE_TO_FIND_ENTITY
                                       (get_prop (JObj baseAttributes)
                                          (primaryKeyAttribute model))) None), db)
                        | Some entity \<Rightarrow>
                            (case instance_update reg entity upsertAttributes db of
                               (entity', db') \<Rightarrow> (Inr entity', db'))))
               (\<lambda>entity.
         io_bind (if hasInfo \<and> isUpdate
                  then io_bind (upsertInfo state ''modified'' (instance_get entity ''info_id''))
                         (\<lambda>_. io_return ())
                  else io_return ()) (\<lambda>_.
         (let sourcePrimaryKey = instance_get entity (primaryKeyAttribute model)
          in io_bind (for_each (upsert_target_association rec eng reg state model
                                  sourcePrimaryKey) foreignKeyOnTargetAssociations) (\<lambda>_.
             io_return entity))))))))"

text \<open>
  The recursion follows the nesting of the payload. The first argument bounds its
  depth, as the call stack does: a payload nested deeper fails with the \<open>RangeError\<close> of
  an exhausted stack.
\<close>

primrec upsertEntity :: "nat \<Rightarrow> storage_engine \<Rightarrow> registry \<Rightarrow> upsert" where
  "upsertEntity 0 = (\<lambda>eng reg state model attributes db.
     (Inl (OtherError ''RangeError: Maximum call stack size exceeded''), db))"
| "upsertEntity (Suc depth) = (\<lambda>eng reg.
     upsertEntity_body (upsertEntity depth eng reg) eng reg)"

definition createItem ::
  "nat \<Rightarrow> storage_engine \<Rightarrow> registry \<Rightarrow> AuthContextMetadata \<Rightarrow> json \<Rightarrow> (world, Instance) io" where
  "createItem depth eng reg state attributes =
     io_bind (\<lambda>w. on_database (transaction
                (upsertEntity depth eng reg state (repo_model (w_repository w)) attributes)) w)
       (\<lambda>item w.
          getItem eng reg state
            (instance_get item (primaryKeyAttribute (repo_model (w_repository w)))) None w)"

definition updateItem ::
  "nat \<Rightarrow> storage_engine \<Rightarrow> registry \<Rightarrow> AuthContextMetadata \<Rightarrow> json \<Rightarrow> json
     \<Rightarrow> (world, Instance) io" where
  "updateItem depth eng reg state id' attributes =
     io_bind (\<lambda>w. on_database (transaction
                (upsertEntity depth eng reg state (repo_model (w_repository w))
                   (JObj (spread [(primaryKeyAttribute (repo_model (w_repository w)), id')]
                            (entries attributes))))) w)
       (\<lambda>item w.
          getItem eng reg state
            (instance_get item (primaryKeyAttribute (repo_model (w_repository w)))) None w)"

text \<open>
  \<open>deleteItem\<close>. The variable \<open>item\<close> is the instance that \<open>getItem\<close> returned;
  \<open>item.update\<close> changes that instance, and \<open>return item\<close> returns it as it then is.
\<close>

definition deleteItem_transaction ::
  "registry \<Rightarrow> EntityStatus \<Rightarrow> AuthContextMetadata \<Rightarrow> Instance \<Rightarrow> (database, Instance) io" where
  "deleteItem_transaction reg softDeleteStatus' state item =
     io_bind (\<lambda>db.
        if instance_has reg item ''status_id''
        then (case instance_update reg item [(''status_id'', status_value softDeleteStatus')] db of
                (item', db') \<Rightarrow> (Inr item', db'))
        else (Inr item, instance_destroy reg item db))
       (\<lambda>item'.
          if instance_has reg item' ''info_id'' \<and> softDeleteStatus' = DELETED
          then io_bind (upsertInfo state ''deleted'' (instance_get item' ''info_id''))
                 (\<lambda>_. io_return item')
          else io_return item')"

definition deleteItem ::
  "storage_engine \<Rightarrow> registry \<Rightarrow> AuthContextMetadata \<Rightarrow> json \<Rightarrow> (world, Instance) io" where
  "deleteItem eng reg state id' =
     io_bind (getItem eng reg state id' None) (\<lambda>item w.
       on_database (transaction
         (deleteItem_transaction reg (softDeleteStatus (w_repository w)) state item)) w)"

section \<open>Example entities\<close>

text \<open>
  A small entity graph in the style of the repository's test fixtures: a product belongs
  to a supply network (as \<open>market_place\<close>), has many orders (soft-deletable, foreign key
  not nullable), has many notes (foreign key nullable), has many prices (no status,
  foreign key not nullable), has one metadata row and belongs to many contacts through
  \<open>ProductContact\<close>. A campaign carries the market place as a plain column.
\<close>

definition attr :: "string \<Rightarrow> string \<Rightarrow> string \<times> Attribute" where
  "attr n t = (n, \<lparr>allowNull = False, field = n, type_key = t, defaultValue = JUndefined\<rparr>)"

definition nullable_attr :: "string \<Rightarrow> string \<Rightarrow> string \<times> Attribute" where
  "nullable_attr n t = (n, \<lparr>allowNull = True, field = n, type_key = t, defaultValue = JUndefined\<rparr>)"

definition status_attr :: "string \<times> Attribute" where
  "status_attr =
     (''status_id'', \<lparr>allowNull = False, field = ''status_id'', type_key = ''INTEGER'',
        defaultValue = JNum 1\<rparr>)"

definition assoc ::
  "AssociationType \<Rightarrow> string \<Rightarrow> string \<Rightarrow> string \<Rightarrow> string \<times> Association" where
  "assoc t alias model_name fk =
     (alias, \<lparr>associationType = t, as = alias, target = model_name, foreignKey = fk,
        through_model = [], otherKey = []\<rparr>)"

definition Product :: Model where
  "Product = \<lparr>name = ''Product'', primaryKeyAttribute = ''id'', primaryKeyField = ''id'',
     rawAttributes = [attr ''id'' ''INTEGER'', attr ''name'' ''STRING'',
       attr ''available'' ''BOOLEAN'', attr ''supply_network_id'' ''INTEGER'',
       status_attr, attr ''info_id'' ''INTEGER''],
     associations = [assoc BELONGS_TO ''market_place'' ''SupplyNetwork'' ''supply_network_id'',
       assoc HAS_MANY ''orders'' ''Order'' ''product_id'',
       assoc HAS_MANY ''notes'' ''Note'' ''product_id'',
       assoc HAS_MANY ''prices'' ''Price'' ''product_id'',
       assoc HAS_ONE ''metadata'' ''ProductMetadata'' ''product_id'',
       (''contacts'', \<lparr>associationType = BELONGS_TO_MANY, as = ''contacts'',
          target = ''Contact'', foreignKey = ''product_id'', through_model = ''ProductContact'',
          otherKey = ''contact_id''\<rparr>)],
     timestamps = True, updatedAt = None\<rparr>"

definition SupplyNetwork :: Model where
  "SupplyNetwork = \<lparr>name = ''SupplyNetwork'', primaryKeyAttribute = ''id'',
     primaryKeyField = ''id'',
     rawAttributes = [attr ''id'' ''INTEGER'', attr ''name'' ''STRING''],
     associations = [], timestamps = False, updatedAt = None\<rparr>"

definition Order :: Model where
  "Order = \<lparr>name = ''Order'', primaryKeyAttribute = ''id'', primaryKeyField = ''id'',
     rawAttributes = [attr ''id'' ''INTEGER'', attr ''name'' ''STRING'',
       attr ''product_id'' ''INTEGER'', status_attr],
     associations = [assoc BELONGS_TO ''product'' ''Product'' ''product_id''],
     timestamps = False, updatedAt = None\<rparr>"

definition Note :: Model where
  "Note = \<lparr>name = ''Note'', primaryKeyAttribute = ''id'', primaryKeyField = ''id'',
     rawAttributes = [attr ''id'' ''INTEGER'', attr ''text'' ''STRING'',
       nullable_attr ''product_id'' ''INTEGER''],
     associations = [], timestamps = False, updatedAt = None\<rparr>"

definition Price :: Model where
  "Price = \<lparr>name = ''Price'', primaryKeyAttribute = ''id'', primaryKeyField = ''id'',
     rawAttributes = [attr ''id'' ''INTEGER'', attr ''amount'' ''INTEGER'',
       attr ''product_id'' ''INTEGER''],
     associations = [], timestamps = False, updatedAt = None\<rparr>"

definition ProductMetadata :: Model where
  "ProductMetadata = \<lparr>name = ''ProductMetadata'', primaryKeyAttribute = ''pk'',
     primaryKeyField = ''pk'',
     rawAttributes = [attr ''pk'' ''INTEGER'',
       (''data'', \<lparr>allowNull = False, field = ''value'', type_key = ''STRING'',
          defaultValue = JUndefined\<rparr>),
       attr ''product_id'' ''INTEGER''],
     associations = [assoc BELONGS_TO ''product'' ''Product'' ''product_id''],
     timestamps = False, updatedAt = None\<rparr>"

definition Contact :: Model where
  "Contact = \<lparr>name = ''Contact'', primaryKeyAttribute = ''id'', primaryKeyField = ''id'',
     rawAttributes = [attr ''id'' ''INTEGER'', attr ''first_name'' ''STRING'',
       attr ''last_name'' ''STRING''],
     associations = [], timestamps = False, updatedAt = None\<rparr>"

definition ProductContact :: Model where
  "ProductContact = \<lparr>name = ''ProductContact'', primaryKeyAttribute = ''id'',
     primaryKeyField = ''id'',
     rawAttributes = [attr ''id'' ''INTEGER'', attr ''product_id'' ''INTEGER'',
       attr ''contact_id'' ''INTEGER''],
     associations = [], timestamps = False, updatedAt = None\<rparr>"

definition Campaign :: Model where
  "Campaign = \<lparr>name = ''Campaign'', primaryKeyAttribute = ''id'', primaryKeyField = ''id'',
     rawAttributes = [attr ''id'' ''INTEGER'', attr ''name'' ''STRING'',
       attr ''market_place_id'' ''INTEGER''],
     associations = [], timestamps = False, updatedAt = None\<rparr>"

definition unknown_model :: Model where
  "unknown_model = \<lparr>name = [], primaryKeyAttribute = ''id'', primaryKeyField = ''id'',
     rawAttributes = [], associations = [], timestamps = False, updatedAt = None\<rparr>"

definition example_registry :: registry where
  "example_registry n =
     (if n = ''Product'' then Product
      else if n = ''SupplyNetwork'' then SupplyNetwork
      else if n = ''Order'' then Order
      else if n = ''Note'' then Note
      else if n = ''Price'' then Price
      else if n = ''ProductMetadata'' then ProductMetadata
      else if n = ''Contact'' then Contact
      else if n = ''ProductContact'' then ProductContact
      else if n = ''Campaign'' then Campaign
      else if n = ''Info'' then Info
      else unknown_model)"


definition notes_association :: Association where
  "notes_association = snd (assoc HAS_MANY ''notes'' ''Note'' ''product_id'')"



text \<open>
  The permissions manager of a campaign service: the default definitions, with the
  \<open>market_place\<close> key mapped to the campaign's own attr.
\<close>

definition campaign_permissions :: PermissionsManager where
  "campaign_permissions =
     new_PermissionsManager Campaign [(''market_place'', PathString ''market_place_id'')]
       DEFAULT_PERMISSIONS_DEFINITIONS"


text \<open>
  The permissions manager of a product service with two definitions, both resolved
  through a direct assoc: the market place, then the contacts.
\<close>

definition product_permissions :: PermissionsManager where
  "product_permissions =
     new_PermissionsManager Product []
       [\<lparr>key = ''market_place'', shouldApply = None\<rparr>, \<lparr>key = ''contacts'', shouldApply = None\<rparr>]"

definition contacts_only_permissions :: PermissionsManager where
  "contacts_only_permissions =
     new_PermissionsManager Product [] [\<lparr>key = ''contacts'', shouldApply = None\<rparr>]"

definition market_place_1_contacts_9 :: AuthContextMetadata where
  "market_place_1_contacts_9 =
     \<lparr>metadata = [(''market_place'', JArr [JNum 1]), (''contacts'', JArr [JNum 9])]\<rparr>"

text \<open>A lookup that finds no entity, and one that finds every entity.\<close>

definition finds_nothing :: "string \<Rightarrow> FindOptions \<Rightarrow> failure + json" where
  "finds_nothing model_name condition = Inr JNull"

definition finds_all :: "string \<Rightarrow> FindOptions \<Rightarrow> failure + json" where
  "finds_all model_name condition = Inr (JObj [])"

text \<open>An input that names its market place without an id, and a contact by id.\<close>

definition input_without_market_place_id :: json where
  "input_without_market_place_id =
     JObj [(''name'', JStr ''product''),
           (''market_place'', JObj [(''name'', JStr ''marketplace'')]),
           (''contacts'', JObj [(''id'', JNum 3)])]"

text \<open>
  The filters generator of a product service: \<open>status\<close> is mapped to a literal
  expression. The second generator has a timestamps manager; its date check stands in
  for the moment library and accepts one date.
\<close>

definition product_filters :: FiltersGenerator where
  "product_filters =
     new_FiltersGenerator Product [(''status'', PathLiteral ''test query'')] None"



section \<open>Example database\<close>

text \<open>
  An engine that compares plain columns with \<open>Op.in\<close> and \<open>Op.eq\<close>, matches no other
  comparison, and returns rows in table order.
\<close>

definition simple_holds_op ::
  "database \<Rightarrow> Model \<Rightarrow> row \<Rightarrow> string \<Rightarrow> opkey option \<Rightarrow> json \<Rightarrow> bool" where
  "simple_holds_op db m r c operator v =
     (if operator = Some (Op ''in'') then (case v of JArr xs \<Rightarrow> row_value r c \<in> set xs | _ \<Rightarrow> False)
      else if operator = Some (Op ''eq'') then row_value r c = v
      else False)"

definition simple_engine :: storage_engine where
  "simple_engine = \<lparr>holds_op = simple_holds_op,
     holds_literal = (\<lambda>db m r l operator v. False),
     sort_rows = (\<lambda>order rows. rows)\<rparr>"

text \<open>
  Three products with their audit records; product 1 has two prices, two orders, two
  notes and two contacts. Two campaigns, in the market places 17 and 20.
\<close>

definition product_row :: "int \<Rightarrow> string \<Rightarrow> int \<Rightarrow> row" where
  "product_row i n info =
     [(''id'', JNum i), (''name'', JStr n), (''available'', JBool True),
      (''supply_network_id'', JNum 17), (''status_id'', JNum 1), (''info_id'', JNum info)]"

definition example_tables :: "string \<Rightarrow> row list" where
  "example_tables n =
     (if n = ''Product''
      then [product_row 1 ''one'' 11, product_row 2 ''two'' 12, product_row 3 ''three'' 13]
      else if n = ''Info''
      then [[(''id'', JNum 11), (''created_at'', JStr ''2020-10-22'')],
            [(''id'', JNum 12), (''created_at'', JStr ''2020-10-22'')],
            [(''id'', JNum 13), (''created_at'', JStr ''2020-10-22'')]]
      else if n = ''Price''
      then [[(''id'', JNum 1), (''amount'', JNum 5), (''product_id'', JNum 1)],
            [(''id'', JNum 2), (''amount'', JNum 7), (''product_id'', JNum 1)]]
      else if n = ''Order''
      then [[(''id'', JNum 1), (''name'', JStr ''first''), (''product_id'', JNum 1),
             (''status_id'', JNum 1)],
            [(''id'', JNum 2), (''name'', JStr ''second''), (''product_id'', JNum 1),
             (''status_id'', JNum 1)]]
      else if n = ''Note''
      then [[(''id'', JNum 1), (''text'', JStr ''a''), (''product_id'', JNum 1)],
            [(''id'', JNum 2), (''text'', JStr ''b''), (''product_id'', JNum 1)]]
      else if n = ''Contact''
      then [[(''id'', JNum 1), (''first_name'', JStr ''John''), (''last_name'', JStr ''Doe'')],
            [(''id'', JNum 2), (''first_name'', JStr ''Jane''), (''last_name'', JStr ''Doe'')]]
      else if n = ''ProductContact''
      then [[(''id'', JNum 1), (''product_id'', JNum 1), (''contact_id'', JNum 1)],
            [(''id'', JNum 2), (''product_id'', JNum 1), (''contact_id'', JNum 2)]]
      else if n = ''Campaign''
      then [[(''id'', JNum 1), (''name'', JStr ''spring''), (''market_place_id'', JNum 17)],
            [(''id'', JNum 2), (''name'', JStr ''autumn''), (''market_place_id'', JNum 20)]]
      else [])"

definition example_database :: database where
  "example_database = \<lparr>tables = example_tables, sequences = (\<lambda>n. 100)\<rparr>"

text \<open>
  The repository of a product service with no permission definitions, and the same
  with the soft-delete status configured to \<open>DELETED\<close>; the repository of a campaign
  service restricted by market place. Each orders by the primary key.
\<close>

definition order_by_id :: "ContextRequest \<Rightarrow> failure + order_item list" where
  "order_by_id request = Inr [OrderBy [] ''id'' ''ASC'']"

definition product_repository :: Repository where
  "product_repository =
     new_Repository Product empty_options (new_PermissionsManager Product [] [])
       product_filters order_by_id None"

definition product_world :: world where
  "product_world = \<lparr>w_repository = product_repository, w_database = example_database\<rparr>"

definition product_world_deleting :: world where
  "product_world_deleting =
     \<lparr>w_repository = product_repository\<lparr>softDeleteStatus := DELETED\<rparr>,
      w_database = example_database\<rparr>"

definition price_repository :: Repository where
  "price_repository =
     new_Repository Price empty_options (new_PermissionsManager Price [] [])
       (new_FiltersGenerator Price [] None) order_by_id None"

definition price_world :: world where
  "price_world = \<lparr>w_repository = price_repository, w_database = example_database\<rparr>"

definition campaign_repository :: Repository where
  "campaign_repository =
     new_Repository Campaign empty_options campaign_permissions
       (new_FiltersGenerator Campaign [] None) order_by_id None"

definition campaign_world :: world where
  "campaign_world = \<lparr>w_repository = campaign_repository, w_database = example_database\<rparr>"

text \<open>Auth contexts: an internal user, and a user of market place 17.\<close>

definition user_987 :: AuthContextMetadata where
  "user_987 = \<lparr>metadata = [(''internal'', JObj [(''id'', JNum 987)])]\<rparr>"

definition market_place_17 :: AuthContextMetadata where
  "market_place_17 = \<lparr>metadata = [(''market_place'', JArr [JNum 17])]\<rparr>"

section \<open>Example collaborators\<close>

text \<open>
  A provider over a failing database, used to run the operations: the state selects
  what fails. With state 0 the delete permission lookup loses its connection; with
  state 1 the repository's \<open>getItem\<close> fails with a database error; with state 2 it
  finds nothing; the repository's other methods always fail with a database error.
\<close>

definition demo_collaborators :: "(unit, nat, unit, json) collaborators" where
  "demo_collaborators = \<lparr>
     validateReadPermissions = (\<lambda>state i. io_return ()),
     validateCreatePermissions = (\<lambda>state input. io_return ()),
     validateUpdatePermissions = (\<lambda>state i. io_return ()),
     validateDeletePermissions = (\<lambda>state i.
        if state = 0 then io_throw (OtherError ''SequelizeConnectionError'') else io_return ()),
     repository_getList = (\<lambda>state request. io_throw (OtherError ''SequelizeDatabaseError'')),
     repository_getItem = (\<lambda>state i.
        if state = 1 then io_throw (OtherError ''SequelizeDatabaseError'')
        else if state = 2 then io_throw (new_ApplicationError ITEM_NOT_FOUND None)
        else io_return (JObj [(''id'', JNum i)])),
     repository_createItem = (\<lambda>state attributes. io_throw (OtherError ''SequelizeDatabaseError'')),
     repository_updateItem = (\<lambda>state i attributes. io_throw (OtherError ''SequelizeDatabaseError'')),
     repository_deleteItem = (\<lambda>state i. io_throw (OtherError ''SequelizeDatabaseError'')),
     serialize = (\<lambda>item state. Inr item),
     deserialize = (\<lambda>input state existing. io_return input),
     validateImmutableFields = (\<lambda>input record. Inr ()),
     validateRelations = (\<lambda>input. io_return ()),
     validateInput = (\<lambda>completeInput state existingItem userInput. io_return ()),
     partialMerge = (\<lambda>item input. Inr input),
     beforeCreate = (\<lambda>input state. io_return input),
     afterCreate = (\<lambda>createdItem input state. io_return createdItem),
     beforeUpdate = (\<lambda>input i existingItem state. io_return input),
     afterUpdate = (\<lambda>updatedItem input i itemBeforeUpdate state. io_return updatedItem)
   \<rparr>"

section \<open>The provider's error wrapping\<close>

lemma guarded_permission_failure:
  "perms w = (Inl e, w') \<Longrightarrow> io_bind perms (\<lambda>_. try_rethrow d body) w = (Inl e, w')"
  by (simp add: io_bind_def)

lemma guarded_failure:
  "perms w = (Inr u, w') \<and> body w' = (Inl e, w'') \<Longrightarrow>
   io_bind perms (\<lambda>_. try_rethrow d body) w =
     (Inl (if isApplicationError e then e
           else ApplicationError (code d) (error d) (message d) (Some e)), w'')"
  by (cases e) (simp_all add: io_bind_def try_rethrow_def new_ApplicationError_def)

text \<open>
  Claim C5, as amended. In each of the five provider operations the permission check
  runs before the \<open>try\<close> block: a failure of the check reaches the caller unchanged,
  whether it is an \<open>ApplicationError\<close> or not. A failure raised inside the
  \<open>try\<close> block reaches the caller unchanged when it is an \<open>ApplicationError\<close>, and
  otherwise wrapped into the operation's own "unable to ..." error (code 400) with the
  failure as its internal error.
\<close>

theorem provider_wrapping:
  "(validateReadPermissions c state None w = (Inl e, w') \<longrightarrow>
      DataProvider_getList c state request w = (Inl e, w'))
 \<and> (validateReadPermissions c state None w = (Inr (), w') \<and>
      DataProvider_getList_try c state request w' = (Inl e, w'') \<longrightarrow>
      DataProvider_getList c state request w =
        (Inl (if isApplicationError e then e
              else ApplicationError 400 ''Bad Request'' ''Items could not be listed.'' (Some e)), w''))
 \<and> (validateReadPermissions c state (Some id') w = (Inl e, w') \<longrightarrow>
      DataProvider_getItem c state id' w = (Inl e, w'))
 \<and> (validateReadPermissions c state (Some id') w = (Inr (), w') \<and>
      DataProvider_getItem_try c state id' w' = (Inl e, w'') \<longrightarrow>
      DataProvider_getItem c state id' w =
        (Inl (if isApplicationError e then e
              else ApplicationError 400 ''Bad Request'' ''Item could not be retrieved.'' (Some e)), w''))
 \<and> (validateCreatePermissions c state input w = (Inl e, w') \<longrightarrow>
      DataProvider_createItem c state input w = (Inl e, w'))
 \<and> (validateCreatePermissions c state input w = (Inr (), w') \<and>
      DataProvider_createItem_try c state input w' = (Inl e, w'') \<longrightarrow>
      DataProvider_createItem c state input w =
        (Inl (if isApplicationError e then e
              else ApplicationError 400 ''Bad Request'' ''Item could not be created.'' (Some e)), w''))
 \<and> (validateUpdatePermissions c state id' w = (Inl e, w') \<longrightarrow>
      DataProvider_updateItem c state id' input isPartial w = (Inl e, w'))
 \<and> (validateUpdatePermissions c state id' w = (Inr (), w') \<and>
      DataProvider_updateItem_try c state id' input isPartial w' = (Inl e, w'') \<longrightarrow>
      DataProvider_updateItem c state id' input isPartial w =
        (Inl (if isApplicationError e then e
              else ApplicationError 400 ''Bad Request'' ''Item could not be updated.'' (Some e)), w''))
 \<and> (validateDeletePermissions c state id' w = (Inl e, w') \<longrightarrow>
      DataProvider_deleteItem c state id' w = (Inl e, w'))
 \<and> (validateDeletePermissions c state id' w = (Inr (), w') \<and>
      DataProvider_deleteItem_try c state id' w' = (Inl e, w'') \<longrightarrow>
      DataProvider_deleteItem c state id' w =
        (Inl (if isApplicationError e then e
              else ApplicationError 400 ''Bad Request'' ''Item could not be deleted.'' (Some e)), w''))"
proof (intro conjI impI)
  show "validateReadPermissions c state None w = (Inl e, w') \<Longrightarrow>
      DataProvider_getList c state request w = (Inl e, w')"
    unfolding DataProvider_getList_def by (rule guarded_permission_failure)
  show "validateReadPermissions c state (Some id') w = (Inl e, w') \<Longrightarrow>
      DataProvider_getItem c state id' w = (Inl e, w')"
    unfolding DataProvider_getItem_def by (rule guarded_permission_failure)
  show "validateCreatePermissions c state input w = (Inl e, w') \<Longrightarrow>
      DataProvider_createItem c state input w = (Inl e, w')"
    unfolding DataProvider_createItem_def by (rule guarded_permission_failure)
  show "validateUpdatePermissions c state id' w = (Inl e, w') \<Longrightarrow>
      DataProvider_updateItem c state id' input isPartial w = (Inl e, w')"
    unfolding DataProvider_updateItem_def by (rule guarded_permission_failure)
  show "validateDeletePermissions c state id' w = (Inl e, w') \<Longrightarrow>
      DataProvider_deleteItem c state id' w = (Inl e, w')"
    unfolding DataProvider_deleteItem_def by (rule guarded_permission_failure)
next
  assume "validateReadPermissions c state None w = (Inr (), w') \<and>
      DataProvider_getList_try c state request w' = (Inl e, w'')"
  from guarded_failure [where perms = "validateReadPermissions c state None" and body = "DataProvider_getList_try c state request"
      and d = UNABLE_TO_LIST, OF this]
  show "DataProvider_getList c state request w =
        (Inl (if isApplicationError e then e
              else ApplicationError 400 ''Bad Request'' ''Items could not be listed.'' (Some e)), w'')"
    by (simp add: DataProvider_getList_def UNABLE_TO_LIST_def)
next
  assume "validateReadPermissions c state (Some id') w = (Inr (), w') \<and>
      DataProvider_getItem_try c state id' w' = (Inl e, w'')"
  from guarded_failure [where perms = "validateReadPermissions c state (Some id')" and body = "DataProvider_getItem_try c state id'"
      and d = UNABLE_TO_GET, OF this]
  show "DataProvider_getItem c state id' w =
        (Inl (if isApplicationError e then e
              else ApplicationError 400 ''Bad Request'' ''Item could not be retrieved.'' (Some e)), w'')"
    by (simp add: DataProvider_getItem_def UNABLE_TO_GET_def)
next
  assume "validateCreatePermissions c state input w = (Inr (), w') \<and>
      DataProvider_createItem_try c state input w' = (Inl e, w'')"
  from guarded_failure [where perms = "validateCreatePermissions c state input" and body = "DataProvider_createItem_try c state input"
      and d = UNABLE_TO_CREATE, OF this]
  show "DataProvider_createItem c state input w =
        (Inl (if isApplicationError e then e
              else ApplicationError 400 ''Bad Request'' ''Item could not be created.'' (Some e)), w'')"
    by (simp add: DataProvider_createItem_def UNABLE_TO_CREATE_def)
next
  assume "validateUpdatePermissions c state id' w = (Inr (), w') \<and>
      DataProvider_updateItem_try c state id' input isPartial w' = (Inl e, w'')"
  from guarded_failure [where perms = "validateUpdatePermissions c state id'" and body = "DataProvider_updateItem_try c state id' input isPartial"
      and d = UNABLE_TO_UPDATE, OF this]
  show "DataProvider_updateItem c state id' input isPartial w =
        (Inl (if isApplicationError e then e
              else ApplicationError 400 ''Bad Request'' ''Item could not be updated.'' (Some e)), w'')"
    by (simp add: DataProvider_updateItem_def UNABLE_TO_UPDATE_def)
next
  assume "validateDeletePermissions c state id' w = (Inr (), w') \<and>
      DataProvider_deleteItem_try c state id' w' = (Inl e, w'')"
  from guarded_failure [where perms = "validateDeletePermissions c state id'" and body = "DataProvider_deleteItem_try c state id'"
      and d = UNABLE_TO_DELETE, OF this]
  show "DataProvider_deleteItem c state id' w =
        (Inl (if isApplicationError e then e
              else ApplicationError 400 ''Bad Request'' ''Item could not be deleted.'' (Some e)), w'')"
    by (simp add: DataProvider_deleteItem_def UNABLE_TO_DELETE_def)
qed

text \<open>
  The claim as stated fails: a database error raised by the delete permission lookup is
  not wrapped, and a database error raised while \<open>updateItem\<close> fetches the existing
  item arrives as "Item could not be retrieved.", not as the update error.
\<close>

theorem provider_wrapping_counterexample:
  "DataProvider_deleteItem demo_collaborators 0 7 () =
     (Inl (OtherError ''SequelizeConnectionError''), ())
   \<and> DataProvider_updateItem demo_collaborators 1 7 (JObj []) False () =
     (Inl (ApplicationError 400 ''Bad Request'' ''Item could not be retrieved.''
            (Some (OtherError ''SequelizeDatabaseError''))), ())"
  by (simp add: DataProvider_deleteItem_def DataProvider_updateItem_def
      DataProvider_updateItem_try_def DataProvider_getItem_def DataProvider_getItem_try_def
      demo_collaborators_def io_bind_def io_throw_def io_return_def io_lift_def
      try_rethrow_def new_ApplicationError_def UNABLE_TO_GET_def)

theorem provider_wrapping_witness:
  "DataProvider_deleteItem demo_collaborators 0 7 () =
     (Inl (OtherError ''SequelizeConnectionError''), ())
   \<and> DataProvider_getList demo_collaborators 3 () () =
     (Inl (ApplicationError 400 ''Bad Request'' ''Items could not be listed.''
            (Some (OtherError ''SequelizeDatabaseError''))), ())
   \<and> DataProvider_getItem demo_collaborators 2 7 () =
     (Inl (ApplicationError 404 ''Not found''
            ''The item does not exist or you do not have access.'' None), ())
   \<and> DataProvider_createItem demo_collaborators 3 (JObj []) () =
     (Inl (ApplicationError 400 ''Bad Request'' ''Item could not be created.''
            (Some (OtherError ''SequelizeDatabaseError''))), ())
   \<and> DataProvider_updateItem demo_collaborators 3 7 (JObj []) False () =
     (Inl (ApplicationError 400 ''Bad Request'' ''Item could not be updated.''
            (Some (OtherError ''SequelizeDatabaseError''))), ())
   \<and> DataProvider_deleteItem demo_collaborators 3 7 () =
     (Inl (ApplicationError 400 ''Bad Request'' ''Item could not be deleted.''
            (Some (OtherError ''SequelizeDatabaseError''))), ())"
proof -
  note defs = demo_collaborators_def io_bind_def io_throw_def io_return_def io_lift_def
    try_rethrow_def new_ApplicationError_def
  have p0: "validateDeletePermissions demo_collaborators 0 7 () =
      (Inl (OtherError ''SequelizeConnectionError''), ())"
    by (simp add: defs)
  have l: "validateReadPermissions demo_collaborators 3 None () = (Inr (), ()) \<and>
      DataProvider_getList_try demo_collaborators 3 () () =
        (Inl (OtherError ''SequelizeDatabaseError''), ())"
    by (simp add: DataProvider_getList_try_def defs)
  have g: "validateReadPermissions demo_collaborators 2 (Some 7) () = (Inr (), ()) \<and>
      DataProvider_getItem_try demo_collaborators 2 7 () =
        (Inl (ApplicationError 404 ''Not found''
            ''The item does not exist or you do not have access.'' None), ())"
    by (simp add: DataProvider_getItem_try_def ITEM_NOT_FOUND_def defs)
  have c: "validateCreatePermissions demo_collaborators 3 (JObj []) () = (Inr (), ()) \<and>
      DataProvider_createItem_try demo_collaborators 3 (JObj []) () =
        (Inl (OtherError ''SequelizeDatabaseError''), ())"
    by (simp add: DataProvider_createItem_try_def defs)
  have u: "validateUpdatePermissions demo_collaborators 3 7 () = (Inr (), ()) \<and>
      DataProvider_updateItem_try demo_collaborators 3 7 (JObj []) False () =
        (Inl (OtherError ''SequelizeDatabaseError''), ())"
    by (simp add: DataProvider_updateItem_try_def DataProvider_getItem_def
        DataProvider_getItem_try_def defs)
  have d: "validateDeletePermissions demo_collaborators 3 7 () = (Inr (), ()) \<and>
      DataProvider_deleteItem_try demo_collaborators 3 7 () =
        (Inl (OtherError ''SequelizeDatabaseError''), ())"
    by (simp add: DataProvider_deleteItem_try_def defs)
  show ?thesis
    using p0 l g c u d
      provider_wrapping [where c = demo_collaborators and state = 0 and id' = 7 and w = "()"
        and w' = "()" and e = "OtherError ''SequelizeConnectionError''"]
      provider_wrapping [where c = demo_collaborators and state = 3 and id' = 7 and w = "()"
        and w' = "()" and w'' = "()" and request = "()" and input = "JObj []"
        and isPartial = False and e = "OtherError ''SequelizeDatabaseError''"]
      provider_wrapping [where c = demo_collaborators and state = 2 and id' = 7 and w = "()"
        and w' = "()" and w'' = "()"
        and e = "ApplicationError 404 ''Not found''
            ''The item does not exist or you do not have access.'' None"]
    by simp
qed

section \<open>Permission conditions accumulate\<close>

lemma serializeKey_restrictions [simp]:
  "serializeKey reg (this\<lparr>restrictions := rs\<rparr>) k = serializeKey reg this k"
  by (simp add: serializeKey_def)

lemma definition_restriction_restrictions [simp]:
  "definition_restriction reg state (this\<lparr>restrictions := rs\<rparr>) d =
   definition_restriction reg state this d"
  by (simp add: definition_restriction_def)

lemma path_valid_restrictions [simp]:
  "path_valid reg (this\<lparr>restrictions := rs\<rparr>) d = path_valid reg this d"
  by (simp add: path_valid_def)

lemma path_valid_restrictions_fun [simp]:
  "path_valid reg (this\<lparr>restrictions := rs\<rparr>) = path_valid reg this"
  by (rule ext) simp







lemma pushed_restrictions_restrictions [simp]:
  "pushed_restrictions reg state (this\<lparr>restrictions := rs\<rparr>) = pushed_restrictions reg state this"
  by (simp add: pushed_restrictions_def)





section \<open>Create permissions return early\<close>

lemma step_cannot_enforce:
  "applies d state \<Longrightarrow> cannot_enforce reg this input d \<Longrightarrow>
   \<exists>msg. validateCreatePermissions_step reg findOne this state input d log = (Inr Return, log @ [msg])"
  by (auto simp: validateCreatePermissions_step_def cannot_enforce_def Let_def
      split: sum.splits list.splits prod.splits)

lemma for_each_until_continue:
  "list_all (\<lambda>x. body x w = (Inr Continue, w)) xs \<Longrightarrow>
   for_each_until body (xs @ ys) w = for_each_until body ys w"
  by (induction xs) (simp_all add: io_bind_def)

lemma for_each_until_return:
  "body x w = (Inr Return, w') \<Longrightarrow> for_each_until body (x # ys) w = (Inr (), w')"
  by (simp add: io_bind_def io_return_def)

lemma for_each_until_throw:
  "body x w = (Inl e, w') \<Longrightarrow> for_each_until body (x # ys) w = (Inl e, w')"
  by (simp add: io_bind_def)

text \<open>
  Claim C8, as amended. \<open>validateCreatePermissions\<close> walks the definitions in order.
  When it reaches an applicable definition that it cannot enforce (no direct
  association, or no truthy primary key in the input under the first association's
  alias) after definitions that each let the loop go on, it logs one diagnostic and
  returns: the validation succeeds whatever definitions come after it, which are never
  looked up. A definition reached with an association and a primary key in the input is
  enforced by its own lookup, and the validation fails with the Forbidden error (403)
  naming the key and the value when the lookup finds no entity.
\<close>

theorem create_permissions_early_return:
  "(definitions this = before @ d # after \<and>
    list_all (\<lambda>d'. validateCreatePermissions_step reg findOne this state input d' log =
                     (Inr Continue, log)) before \<and>
    applies d state \<and> cannot_enforce reg this input d
    \<longrightarrow> (\<exists>msg. validateCreatePermissions' reg findOne this state input log =
                 (Inr (), log @ [msg])))
 \<and> (definitions this = before @ d # after \<and>
    list_all (\<lambda>d'. validateCreatePermissions_step reg findOne this state input d' log =
                     (Inr Continue, log)) before \<and>
    applies d state \<and>
    extractAndValidatePathData reg (pm_model this) (pm_pathMap this)
      INVALID_PERMISSION_DEFINITION (serializeKey reg this (key d)) =
        Inr (directAssociation # rest, field') \<and>
    truthy (get_prop (get_prop input (as directAssociation))
              (primaryKeyAttribute (reg (target directAssociation)))) \<and>
    findOne (target directAssociation)
      (buildValidationCondition rest field' (as_array (get_prop (getMetadata state) (key d)))
         (primaryKeyAttribute (reg (target directAssociation)),
          get_prop (get_prop input (as directAssociation))
              (primaryKeyAttribute (reg (target directAssociation))))) = Inr entity \<and>
    \<not> truthy entity
    \<longrightarrow> validateCreatePermissions' reg findOne this state input log =
          (Inl (ApplicationError 403 ''No permissions''
                 (message (NO_ACCESS (key d)
                    (get_prop (get_prop input (as directAssociation))
                       (primaryKeyAttribute (reg (target directAssociation)))))) None), log))"
proof (intro conjI impI)
  assume a: "definitions this = before @ d # after \<and>
    list_all (\<lambda>d'. validateCreatePermissions_step reg findOne this state input d' log =
                     (Inr Continue, log)) before \<and>
    applies d state \<and> cannot_enforce reg this input d"
  then obtain msg where
    "validateCreatePermissions_step reg findOne this state input d log = (Inr Return, log @ [msg])"
    using step_cannot_enforce by blast
  with a show "\<exists>msg. validateCreatePermissions' reg findOne this state input log =
                 (Inr (), log @ [msg])"
    by (auto simp: validateCreatePermissions'_def for_each_until_continue for_each_until_return
        simp del: for_each_until.simps)
next
  let ?pkv = "get_prop (get_prop input (as directAssociation))
              (primaryKeyAttribute (reg (target directAssociation)))"
  assume a: "definitions this = before @ d # after \<and>
    list_all (\<lambda>d'. validateCreatePermissions_step reg findOne this state input d' log =
                     (Inr Continue, log)) before \<and>
    applies d state \<and>
    extractAndValidatePathData reg (pm_model this) (pm_pathMap this)
      INVALID_PERMISSION_DEFINITION (serializeKey reg this (key d)) =
        Inr (directAssociation # rest, field') \<and>
    truthy ?pkv \<and>
    findOne (target directAssociation)
      (buildValidationCondition rest field' (as_array (get_prop (getMetadata state) (key d)))
         (primaryKeyAttribute (reg (target directAssociation)), ?pkv)) = Inr entity \<and>
    \<not> truthy entity"
  then have "validateCreatePermissions_step reg findOne this state input d log =
      (Inl (new_ApplicationError (NO_ACCESS (key d) ?pkv) None), log)"
    by (simp add: validateCreatePermissions_step_def Let_def)
  then have "validateCreatePermissions_step reg findOne this state input d log =
      (Inl (ApplicationError 403 ''No permissions'' (message (NO_ACCESS (key d) ?pkv)) None), log)"
    by (simp add: new_ApplicationError_def NO_ACCESS_def)
  with a show "validateCreatePermissions' reg findOne this state input log =
          (Inl (ApplicationError 403 ''No permissions'' (message (NO_ACCESS (key d) ?pkv)) None), log)"
    by (auto simp: validateCreatePermissions'_def for_each_until_continue for_each_until_throw
        simp del: for_each_until.simps)
qed

text \<open>
  The claim as stated fails: the input names the market place without an id and a
  contact the caller has no access to. With the market place definition first the
  validation succeeds, the contacts definition is never enforced; on its own the
  contacts definition fails with the Forbidden error.
\<close>

theorem create_permissions_counterexample:
  "fst (validateCreatePermissions' example_registry finds_nothing product_permissions
          market_place_1_contacts_9 input_without_market_place_id []) = Inr ()
   \<and> fst (validateCreatePermissions' example_registry finds_nothing contacts_only_permissions
          market_place_1_contacts_9 input_without_market_place_id []) =
       Inl (ApplicationError 403 ''No permissions''
              (message (NO_ACCESS ''contacts'' (JNum 3))) None)"
  by code_simp

theorem create_permissions_early_return_witness:
  "(\<exists>msg. validateCreatePermissions' example_registry finds_nothing product_permissions
       market_place_1_contacts_9 input_without_market_place_id [] = (Inr (), [msg]))
   \<and> validateCreatePermissions' example_registry finds_nothing contacts_only_permissions
       market_place_1_contacts_9 input_without_market_place_id [] =
       (Inl (ApplicationError 403 ''No permissions''
              (message (NO_ACCESS ''contacts'' (JNum 3))) None), [])"
proof -
  let ?mp = "\<lparr>key = ''market_place'', shouldApply = None\<rparr>"
  let ?ct = "\<lparr>key = ''contacts'', shouldApply = None\<rparr>"
  let ?assoc = "\<lparr>associationType = BELONGS_TO_MANY, as = ''contacts'',
          target = ''Contact'', foreignKey = ''product_id'', through_model = ''ProductContact'',
          otherKey = ''contact_id''\<rparr>"
  have d1: "definitions product_permissions = [] @ ?mp # [?ct]"
    by (simp add: product_permissions_def new_PermissionsManager_def)
  have a1: "applies ?mp market_place_1_contacts_9"
    by (simp add: applies_def)
  have c1: "cannot_enforce example_registry product_permissions input_without_market_place_id ?mp"
    by code_simp
  have d2: "definitions contacts_only_permissions = [] @ ?ct # []"
    by (simp add: contacts_only_permissions_def new_PermissionsManager_def)
  have a2: "applies ?ct market_place_1_contacts_9"
    by (simp add: applies_def)
  have e2: "extractAndValidatePathData example_registry (pm_model contacts_only_permissions)
      (pm_pathMap contacts_only_permissions) INVALID_PERMISSION_DEFINITION
      (serializeKey example_registry contacts_only_permissions (key ?ct)) =
        Inr (?assoc # [], PathString ''id'')"
    by code_simp
  have t2: "truthy (get_prop (get_prop input_without_market_place_id (as ?assoc))
              (primaryKeyAttribute (example_registry (target ?assoc))))"
    by code_simp
  have v2: "get_prop (get_prop input_without_market_place_id (as ?assoc))
              (primaryKeyAttribute (example_registry (target ?assoc))) = JNum 3"
    by code_simp
  have k2: "key ?ct = ''contacts''" by simp
  from create_permissions_early_return [where this = product_permissions and before = "[]"
      and d = ?mp and after = "[?ct]" and reg = example_registry and findOne = finds_nothing
      and state = market_place_1_contacts_9 and input = input_without_market_place_id
      and log = "[]"] d1 a1 c1
  have w1: "\<exists>msg. validateCreatePermissions' example_registry finds_nothing product_permissions
       market_place_1_contacts_9 input_without_market_place_id [] = (Inr (), [msg])"
    by simp
  from create_permissions_early_return [where this = contacts_only_permissions
      and before = "[]" and d = ?ct and after = "[]" and reg = example_registry
      and findOne = finds_nothing and state = market_place_1_contacts_9
      and input = input_without_market_place_id and log = "[]"
      and directAssociation = ?assoc and rest = "[]" and field' = "PathString ''id''"
      and entity = JNull] d2 a2 e2 t2
  have w2: "validateCreatePermissions' example_registry finds_nothing contacts_only_permissions
       market_place_1_contacts_9 input_without_market_place_id [] =
       (Inl (ApplicationError 403 ''No permissions''
              (message (NO_ACCESS ''contacts'' (JNum 3))) None), [])"
    unfolding v2 k2 by (simp add: finds_nothing_def)
  from w1 w2 show ?thesis by simp
qed

section \<open>Filter operators\<close>













section \<open>Page size and page\<close>



section \<open>The total count of a list\<close>

lemma spread_options_group:
  "fo_group (spread_options a b) = or_else (fo_group b) (fo_group a)"
  by (simp add: spread_options_def)

lemma generateIncludeClause_group:
  "fo_group (generateIncludeClause this p f) = None"
  by (simp add: generateIncludeClause_def empty_options_def Let_def)

lemma generateWhereClause_group:
  "fo_group (generateWhereClause this p f) = None"
  by (simp add: generateWhereClause_def empty_options_def Let_def split: list.split)

lemma generateBaseFetchCondition_group:
  "generateBaseFetchCondition reg this = Inr base \<Longrightarrow>
   fo_group base = fo_group (fetchCondition this)"
  by (auto simp: generateBaseFetchCondition_def Let_def
      split: option.splits sum.splits prod.splits)

text \<open>
  The merged condition takes its \<open>group\<close> from the repository's fetch condition: neither
  the include clause nor the where clause sets one.
\<close>

lemma generateCondition_group:
  assumes "Repository_generateCondition reg state request this = (Inr c, this')"
  shows "fo_group c = fo_group (fetchCondition this)"
proof -
  obtain p pm' where p: "generateCondition reg state (permissionsManager this) = (p, pm')"
    by (cases "generateCondition reg state (permissionsManager this)")
  obtain f fg' where f: "FiltersGenerator_generateCondition reg state request
      (filtersGenerator this) = (f, fg')"
    by (cases "FiltersGenerator_generateCondition reg state request (filtersGenerator this)")
  let ?repo = "this\<lparr>permissionsManager := pm', filtersGenerator := fg'\<rparr>"
  from assms p f obtain permissionsCondition filtersCondition base
    where "generateBaseFetchCondition reg ?repo = Inr base"
      and "c = spread_options
             (spread_options base
                (generateIncludeClause ?repo permissionsCondition filtersCondition))
             (generateWhereClause ?repo permissionsCondition filtersCondition)"
    by (cases p; cases f; cases "generateBaseFetchCondition reg ?repo")
      (auto simp: Repository_generateCondition_def Let_def)
  with generateBaseFetchCondition_group [of reg ?repo base] show ?thesis
    by (simp add: spread_options_group generateIncludeClause_group generateWhereClause_group
        or_else_def)
qed

lemma matching_items_options_group:
  "fo_group (matching_items_options c order limit offset) = fo_group c"
  by (simp add: matching_items_options_def spread_options_def or_else_def empty_options_def)

lemma findAndCountAll_without_group:
  "fo_group options = None \<Longrightarrow> findAndCountAll eng m options db = Inr (found, count) \<Longrightarrow>
   js_length count = JUndefined"
  by (auto simp: findAndCountAll_def Let_def split: sum.splits)

text \<open>
  \<open>getList\<close> step by step: each step either fails, and ends the call, or hands its
  result to the next one.
\<close>

lemma getList_unfold:
  "getList eng reg state request w =
     (case list_window request of
        Inl e \<Rightarrow> (Inl e, w)
      | Inr (limit, offset) \<Rightarrow>
          (case Repository_generateCondition reg state (Some request) (w_repository w) of
             (Inl e, this') \<Rightarrow> (Inl e, w\<lparr>w_repository := this'\<rparr>)
           | (Inr condition, this') \<Rightarrow>
               (case orderGenerator this' request of
                  Inl e \<Rightarrow> (Inl e, w\<lparr>w_repository := this'\<rparr>)
                | Inr order \<Rightarrow>
                    (case findAndCountAll eng (repo_model this')
                            (matching_items_options condition order limit offset)
                            (w_database w) of
                       Inl e \<Rightarrow> (Inl e, w\<lparr>w_repository := this'\<rparr>)
                     | Inr (matchingItems, count) \<Rightarrow>
                         (case generateListResultsCondition reg this'
                                 (WhereOp (primaryKeyAttribute (repo_model this'))
                                    (Op_lookup (Some ''in''))
                                    (JArr (map (\<lambda>item. instance_get item
                                                  (primaryKeyAttribute (repo_model this')))
                                             matchingItems))) of
                            Inl e \<Rightarrow> (Inl e, w\<lparr>w_repository := this'\<rparr>)
                          | Inr listResultsCondition \<Rightarrow>
                              (case findAll eng (repo_model this')
                                      (spread_options listResultsCondition
                                         (empty_options\<lparr>fo_order := Some order\<rparr>))
                                      (w_database w) of
                                 Inl e \<Rightarrow> (Inl e, w\<lparr>w_repository := this'\<rparr>)
                               | Inr items \<Rightarrow>
                                   (Inr (items, js_length count),
                                    w\<lparr>w_repository := this'\<rparr>)))))))"
  by (simp add: getList_def io_bind_def io_lift_def io_return_def on_repository_def
      read_database_def Let_def split: sum.split prod.split)

lemma getList_count:
  assumes "getList eng reg state request w = (Inr (items, totalCount), w')"
  shows "\<exists>limit offset condition this' order matchingItems count.
           Repository_generateCondition reg state (Some request) (w_repository w) =
             (Inr condition, this') \<and>
           findAndCountAll eng (repo_model this')
             (matching_items_options condition order limit offset) (w_database w) =
             Inr (matchingItems, count) \<and>
           totalCount = js_length count"
proof (cases "list_window request")
  case (Inl e)
  with assms show ?thesis by (simp add: getList_unfold)
next
  case (Inr lo)
  obtain limit offset where lo: "lo = (limit, offset)" by (cases lo)
  obtain r this' where g: "Repository_generateCondition reg state (Some request)
      (w_repository w) = (r, this')"
    by (cases "Repository_generateCondition reg state (Some request) (w_repository w)")
  show ?thesis
  proof (cases r)
    case (Inl e)
    with assms Inr lo g show ?thesis by (simp add: getList_unfold)
  next
    case condition: (Inr condition)
    show ?thesis
    proof (cases "orderGenerator this' request")
      case (Inl e)
      with assms Inr lo g condition show ?thesis by (simp add: getList_unfold)
    next
      case order: (Inr order)
      show ?thesis
      proof (cases "findAndCountAll eng (repo_model this')
          (matching_items_options condition order limit offset) (w_database w)")
        case (Inl e)
        with assms Inr lo g condition order show ?thesis by (simp add: getList_unfold)
      next
        case found: (Inr found)
        obtain matchingItems count where f: "found = (matchingItems, count)" by (cases found)
        from assms Inr lo g condition order found f
        have "totalCount = js_length count"
          by (simp add: getList_unfold split: sum.splits)
        with g condition found f show ?thesis by blast
      qed
    qed
  qed
qed

text \<open>
  Whenever the fetch condition has no \<open>group\<close>, the first query of \<open>getList\<close> runs
  without one, its count is a number, and the \<open>length\<close> of a number is \<open>undefined\<close>:
  every list that is returned comes with the total \<open>undefined\<close>.
\<close>

lemma getList_total_undefined:
  assumes "fo_group (fetchCondition (w_repository w)) = None"
    and "getList eng reg state request w = (Inr (items, totalCount), w')"
  shows "totalCount = JUndefined"
proof -
  from getList_count [OF assms(2)] obtain limit offset condition this' order matchingItems count
    where c: "Repository_generateCondition reg state (Some request) (w_repository w) =
             (Inr condition, this')"
      and f: "findAndCountAll eng (repo_model this')
             (matching_items_options condition order limit offset) (w_database w) =
             Inr (matchingItems, count)"
      and t: "totalCount = js_length count"
    by blast
  from generateCondition_group [OF c] assms(1)
  have "fo_group (matching_items_options condition order limit offset) = None"
    by (simp add: matching_items_options_group)
  from findAndCountAll_without_group [OF this f] t show ?thesis by simp
qed

lemma generateCondition_repository:
  "\<exists>pm fg. snd (Repository_generateCondition reg state request this) =
     this\<lparr>permissionsManager := pm, filtersGenerator := fg\<rparr>"
proof -
  obtain p pm' where p: "generateCondition reg state (permissionsManager this) = (p, pm')"
    by (cases "generateCondition reg state (permissionsManager this)")
  obtain f fg' where f: "FiltersGenerator_generateCondition reg state request
      (filtersGenerator this) = (f, fg')"
    by (cases "FiltersGenerator_generateCondition reg state request (filtersGenerator this)")
  let ?repo = "this\<lparr>permissionsManager := pm', filtersGenerator := fg'\<rparr>"
  show ?thesis
  proof (cases p)
    case (Inl e)
    with p have "snd (Repository_generateCondition reg state request this) =
        this\<lparr>permissionsManager := pm', filtersGenerator := filtersGenerator this\<rparr>"
      by (simp add: Repository_generateCondition_def)
    then show ?thesis by blast
  next
    case (Inr permissionsCondition)
    with p f have "snd (Repository_generateCondition reg state request this) = ?repo"
      by (cases f; cases "generateBaseFetchCondition reg ?repo")
        (simp_all add: Repository_generateCondition_def Let_def)
    then show ?thesis by blast
  qed
qed

lemma product_list_condition:
  "fst (Repository_generateCondition example_registry user_987
          (Some (new_ContextRequest JNaN [(''page_size'', JNum 2)])) product_repository) =
   Inr (empty_options\<lparr>fo_include := Some []\<rparr>)"
  by code_simp

lemma product_list_window:
  "list_window (new_ContextRequest JNaN [(''page_size'', JNum 2)]) = Inr (JNum 2, JNum 0)"
  by code_simp

lemma product_list_first_query:
  "findAndCountAll simple_engine Product
     (matching_items_options (empty_options\<lparr>fo_include := Some []\<rparr>)
        [OrderBy [] ''id'' ''ASC''] (JNum 2) (JNum 0)) example_database =
   Inr ([instance_of Product (product_row 1 ''one'' 11),
         instance_of Product (product_row 2 ''two'' 12)], JNum 3)"
  by code_simp

lemma product_list_second_query:
  "findAll simple_engine Product
     (spread_options
        (empty_options\<lparr>fo_where := Some (WhereAnd
           [WhereOp ''id'' (Op_lookup (Some ''in'')) (JArr [JNum 1, JNum 2]), WhereUndefined])\<rparr>)
        (empty_options\<lparr>fo_order := Some [OrderBy [] ''id'' ''ASC'']\<rparr>)) example_database =
   Inr [instance_of Product (product_row 1 ''one'' 11),
        instance_of Product (product_row 2 ''two'' 12)]"
  by code_simp

text \<open>
  With \<open>group: "Product.id"\<close>, as the repository's tests expect the first query to be
  called, the count is an array with one entry per product, whose length is 3.
\<close>

lemma product_list_grouped:
  "findAndCountAll simple_engine Product
     ((matching_items_options (empty_options\<lparr>fo_include := Some []\<rparr>)
        [OrderBy [] ''id'' ''ASC''] (JNum 2) (JNum 0))\<lparr>fo_group := Some ''Product.id''\<rparr>)
     example_database =
   Inr ([instance_of Product (product_row 1 ''one'' 11),
         instance_of Product (product_row 2 ''two'' 12)],
        JArr [JObj [(''id'', JNum 1), (''count'', JNum 1)],
              JObj [(''id'', JNum 2), (''count'', JNum 1)],
              JObj [(''id'', JNum 3), (''count'', JNum 1)]])"
  by code_simp

text \<open>
  Claim C1. A list of the three products with \<open>page_size=2\<close> (page 1 by default)
  returns the first two products, as the claim says, but the total that comes with them
  is \<open>undefined\<close>, not 3: the first query is run without \<open>group\<close>.
\<close>

theorem getList_loses_total_count:
  "fst (getList simple_engine example_registry user_987
          (new_ContextRequest JNaN [(''page_size'', JNum 2)]) product_world) =
     Inr ([instance_of Product (product_row 1 ''one'' 11),
           instance_of Product (product_row 2 ''two'' 12)], JUndefined) \<and>
   length (matching_rows simple_engine example_database Product None) = 3"
proof -
  let ?request = "new_ContextRequest JNaN [(''page_size'', JNum 2)]"
  define this' where "this' = snd (Repository_generateCondition example_registry user_987
      (Some ?request) product_repository)"
  from generateCondition_repository [of example_registry user_987 "Some ?request"
      product_repository]
  obtain pm fg where "this' = product_repository\<lparr>permissionsManager := pm,
      filtersGenerator := fg\<rparr>"
    unfolding this'_def by blast
  then have fields: "repo_model this' = Product" "orderGenerator this' = order_by_id"
    "fetchCondition this' = empty_options" "repo_timestampsManager this' = None"
    by (simp_all add: product_repository_def new_Repository_def)
  have condition: "Repository_generateCondition example_registry user_987 (Some ?request)
      product_repository = (Inr (empty_options\<lparr>fo_include := Some []\<rparr>), this')"
    using product_list_condition unfolding this'_def by (simp add: prod_eq_iff)
  have pk: "primaryKeyAttribute Product = ''id''"
    by (simp add: Product_def)
  have keys: "instance_get (instance_of Product (product_row 1 ''one'' 11)) ''id'' = JNum 1"
    "instance_get (instance_of Product (product_row 2 ''two'' 12)) ''id'' = JNum 2"
    by code_simp+
  have results: "generateListResultsCondition example_registry this' c =
      Inr (empty_options\<lparr>fo_where := Some (WhereAnd [c, WhereUndefined])\<rparr>)" for c
    by (simp add: generateListResultsCondition_def generateBaseFetchCondition_def fields
        empty_options_def)
  have "length (matching_rows simple_engine example_database Product None) = 3"
    by code_simp
  then show ?thesis
    by (simp add: getList_unfold product_world_def product_list_window condition fields
        order_by_id_def product_list_first_query pk keys results product_list_second_query)
qed

section \<open>Deleting an entity\<close>

lemma map_of_set_key:
  "map_of (set_key kvs k v) k' = (if k' = k then Some v else map_of kvs k')"
  by (induction kvs) auto

lemma spread_Nil: "spread a [] = a"
  by (simp add: spread_def)

lemma spread_single: "spread a [(k, v)] = set_key a k v"
  by (simp add: spread_def)

lemma status_value_defined: "status_value s \<noteq> JUndefined"
  by (cases s) simp_all

lemma model_columns_status:
  "model_columns m [(''status_id'', status_value s)] =
     (if has_key (rawAttributes m) ''status_id'' then [(''status_id'', status_value s)] else [])"
  by (simp add: model_columns_def status_value_defined)

text \<open>
  \<open>getItem\<close> step by step. It changes the repository's generators and nothing else:
  the database and the configured soft-delete status are as before.
\<close>

lemma getItem_unfold:
  "getItem eng reg state id' request w =
     (case Repository_generateCondition reg state request (w_repository w) of
        (Inl e, this') \<Rightarrow> (Inl e, w\<lparr>w_repository := this'\<rparr>)
      | (Inr condition, this') \<Rightarrow>
          (case findAll eng (repo_model this')
                  (condition\<lparr>fo_where := Some (WhereAnd
                     [(case fo_where condition of None \<Rightarrow> WhereUndefined | Some c \<Rightarrow> c),
                      WhereField (primaryKeyAttribute (repo_model this')) id'])\<rparr>)
                  (w_database w) of
             Inl e \<Rightarrow> (Inl e, w\<lparr>w_repository := this'\<rparr>)
           | Inr [] \<Rightarrow> (Inl (new_ApplicationError ITEM_NOT_FOUND None),
                        w\<lparr>w_repository := this'\<rparr>)
           | Inr (item # _) \<Rightarrow> (Inr item, w\<lparr>w_repository := this'\<rparr>)))"
  by (simp add: getItem_def io_bind_def io_return_def io_throw_def on_repository_def
      read_database_def Let_def split: sum.split prod.split list.split)

lemma getItem_world:
  "snd (getItem eng reg state id' request w) =
     w\<lparr>w_repository := snd (Repository_generateCondition reg state request (w_repository w))\<rparr>"
  by (simp add: getItem_unfold split: sum.split prod.split list.split)

lemma getItem_database:
  "w_database (snd (getItem eng reg state id' request w)) = w_database w"
  by (simp add: getItem_world)

lemma getItem_softDeleteStatus:
  "softDeleteStatus (w_repository (snd (getItem eng reg state id' request w))) =
     softDeleteStatus (w_repository w)"
proof -
  from generateCondition_repository [of reg state request "w_repository w"]
  obtain pm fg where "snd (Repository_generateCondition reg state request (w_repository w)) =
      (w_repository w)\<lparr>permissionsManager := pm, filtersGenerator := fg\<rparr>"
    by blast
  then show ?thesis by (simp add: getItem_world)
qed

text \<open>
  The transaction of \<open>deleteItem\<close> never fails: it updates or destroys the instance,
  then updates the audit record when the instance has \<open>info_id\<close> and the configured
  status is \<open>DELETED\<close>.
\<close>

lemma deleteItem_transaction_unfold:
  "deleteItem_transaction reg s state item db =
     (let updated = (if instance_has reg item ''status_id''
                     then instance_update reg item [(''status_id'', status_value s)] db
                     else (item, instance_destroy reg item db))
      in (Inr (fst updated),
          if instance_has reg (fst updated) ''info_id'' \<and> s = DELETED
          then snd (upsert Info (info_payload state ''deleted''
                                   (instance_get (fst updated) ''info_id'')) (snd updated))
          else snd updated))"
  by (cases "instance_update reg item [(''status_id'', status_value s)] db";
      cases "upsert Info (info_payload state ''deleted'' (instance_get item ''info_id''))
               (instance_destroy reg item db)";
      cases "upsert Info (info_payload state ''deleted''
               (instance_get (fst (instance_update reg item [(''status_id'', status_value s)] db))
                  ''info_id''))
               (snd (instance_update reg item [(''status_id'', status_value s)] db))")
    (auto simp: deleteItem_transaction_def io_bind_def io_return_def upsertInfo_def Let_def)

lemma deleteItem_unfold:
  assumes "fst (getItem eng reg state id' None w) = Inr item"
  shows "deleteItem eng reg state id' w =
     (case deleteItem_transaction reg (softDeleteStatus (w_repository w)) state item
             (w_database w) of
        (r, db') \<Rightarrow> (r, (snd (getItem eng reg state id' None w))\<lparr>w_database := db'\<rparr>))"
proof -
  define w1 where "w1 = snd (getItem eng reg state id' None w)"
  have s: "softDeleteStatus (w_repository w1) = softDeleteStatus (w_repository w)"
    and d: "w_database w1 = w_database w"
    unfolding w1_def by (rule getItem_softDeleteStatus, rule getItem_database)
  from assms have g: "getItem eng reg state id' None w = (Inr item, w1)"
    unfolding w1_def by (simp add: prod_eq_iff)
  obtain a db' where t: "deleteItem_transaction reg (softDeleteStatus (w_repository w)) state
      item (w_database w) = (Inr a, db')"
    by (simp add: deleteItem_transaction_unfold Let_def)
  show ?thesis
    unfolding deleteItem_def w1_def [symmetric]
    by (simp add: io_bind_def g on_database_def transaction_def s d t)
qed

lemma instance_update_instance:
  "fst (instance_update reg item values db) =
     item\<lparr>dataValues := spread (dataValues item)
                              (model_columns (reg (instance_model item)) values)\<rparr>"
  by (simp add: instance_update_def Let_def)




lemma has_key_set_key:
  "has_key (set_key kvs k v) k' = (k' = k \<or> has_key kvs k')"
  by (simp add: has_key_def map_of_set_key)

lemma upsert_other_table:
  "n \<noteq> name m \<Longrightarrow> tables (snd (upsert m values db)) n = tables db n"
  by (simp add: upsert_def create_def Let_def)

lemma instance_update_tables:
  "tables (snd (instance_update reg item values db)) n =
     (if n = name (reg (instance_model item))
      then map (\<lambda>r. if same_key (reg (instance_model item))
                          (instance_get item (primaryKeyAttribute (reg (instance_model item)))) r
                     then spread r (model_columns (reg (instance_model item)) values) else r)
             (tables db n)
      else tables db n)"
  by (simp add: instance_update_def Let_def)

lemma instance_destroy_tables:
  "tables (instance_destroy reg item db) n =
     (if n = name (reg (instance_model item))
      then filter (\<lambda>r. \<not> same_key (reg (instance_model item))
                          (instance_get item (primaryKeyAttribute (reg (instance_model item)))) r)
             (tables db n)
      else tables db n)"
  by (simp add: instance_destroy_def Let_def)

lemma deleteItem_database:
  assumes "fst (getItem eng reg state id' None w) = Inr item"
  shows "w_database (snd (deleteItem eng reg state id' w)) =
     snd (deleteItem_transaction reg (softDeleteStatus (w_repository w)) state item (w_database w))"
  by (simp add: deleteItem_unfold [OF assms] split: prod.split)

lemma info_payload_deleted:
  "truthy info \<Longrightarrow>
   info_payload state ''deleted'' info =
     [(''deleted_at'', NOW)] @
     (if truthy (get_prop (get_prop (getMetadata state) ''internal'') ''id'')
      then [(''deleted_by_id'', get_prop (get_prop (getMetadata state) ''internal'') ''id'')]
      else []) @
     [(''id'', info)]"
  by (simp add: info_payload_def Let_def spread_single spread_Nil)

lemma truthy_defined: "truthy v \<Longrightarrow> v \<noteq> JUndefined \<and> v \<noteq> JNull"
  by (cases v) simp_all

lemma Info_columns:
  "truthy info \<Longrightarrow>
   model_columns Info (info_payload state ''deleted'' info) = info_payload state ''deleted'' info"
  by (auto simp: info_payload_deleted model_columns_def Info_def has_key_def NOW_def
      dest: truthy_defined)

lemma Info_key:
  "truthy info \<Longrightarrow>
   row_value (info_payload state ''deleted'' info) (primaryKeyAttribute Info) = info"
  by (auto simp: info_payload_deleted row_value_def Info_def dest: truthy_defined)

lemma upsert_existing:
  "list_ex (same_key m (row_value values (primaryKeyAttribute m))) (tables db (name m)) \<Longrightarrow>
   tables (snd (upsert m values db)) (name m) =
     map (\<lambda>r. if same_key m (row_value values (primaryKeyAttribute m)) r
               then spread r (model_columns m values) else r) (tables db (name m))"
  by (simp add: upsert_def Let_def)

text \<open>
  Claim C6. A repository is constructed with the soft-delete status \<open>ARCHIVED\<close>. Once
  \<open>getItem\<close> has found the entity (of a model other than \<open>Info\<close>), \<open>deleteItem\<close>
  succeeds. When the model has a \<open>status_id\<close> attribute, the entity's row gets the
  configured status and every other row of the table is untouched; when the instance has
  no \<open>status_id\<close>, its row is removed. Unless the configured status is \<open>DELETED\<close> the
  audit records are as before. When it is \<open>DELETED\<close> and the entity refers to an existing
  audit record, that record gets \<open>deleted_at = NOW\<close> and, when the caller has an internal
  user id, \<open>deleted_by_id\<close>; the other audit records are untouched.
\<close>

theorem deleteItem_soft_or_hard:
  fixes eng reg state id' w item
  defines "m \<equiv> reg (instance_model item)"
  defines "pk \<equiv> instance_get item (primaryKeyAttribute m)"
    and "s \<equiv> softDeleteStatus (w_repository w)"
    and "db \<equiv> w_database w"
    and "db' \<equiv> w_database (snd (deleteItem eng reg state id' w))"
    and "info \<equiv> instance_get item ''info_id''"
    and "userId \<equiv> get_prop (get_prop (getMetadata state) ''internal'') ''id''"
  assumes g: "fst (getItem eng reg state id' None w) = Inr item"
    and n: "name m \<noteq> name Info"
  shows "softDeleteStatus (new_Repository model fc pm fg og tm) = ARCHIVED \<and>
    (\<exists>item'. fst (deleteItem eng reg state id' w) = Inr item') \<and>
    (has_key (rawAttributes m) ''status_id'' \<longrightarrow>
       tables db' (name m) =
         map (\<lambda>r. if same_key m pk r then set_key r ''status_id'' (status_value s) else r)
           (tables db (name m))) \<and>
    (\<not> instance_has reg item ''status_id'' \<longrightarrow>
       tables db' (name m) = filter (\<lambda>r. \<not> same_key m pk r) (tables db (name m))) \<and>
    (s \<noteq> DELETED \<longrightarrow> tables db' (name Info) = tables db (name Info)) \<and>
    (s = DELETED \<and> instance_has reg item ''info_id'' \<and> truthy info \<and>
     list_ex (same_key Info info) (tables db (name Info)) \<longrightarrow>
       tables db' (name Info) =
         map (\<lambda>r. if same_key Info info r
                   then spread r ([(''deleted_at'', NOW)] @
                                  (if truthy userId then [(''deleted_by_id'', userId)] else []) @
                                  [(''id'', info)])
                   else r)
           (tables db (name Info)))"
proof -
  let ?updated = "if instance_has reg item ''status_id''
      then instance_update reg item [(''status_id'', status_value s)] db
      else (item, instance_destroy reg item db)"
  have db': "db' = (if instance_has reg (fst ?updated) ''info_id'' \<and> s = DELETED
      then snd (upsert Info (info_payload state ''deleted''
                               (instance_get (fst ?updated) ''info_id'')) (snd ?updated))
      else snd ?updated)"
    unfolding db'_def s_def db_def
    by (simp add: deleteItem_database [OF g] deleteItem_transaction_unfold Let_def)
  have entity: "tables db' (name m) = tables (snd ?updated) (name m)"
    using n by (simp add: db' upsert_other_table)
  have other: "tables (snd ?updated) (name Info) = tables db (name Info)"
    using n by (simp add: instance_update_tables instance_destroy_tables m_def)
  have item_info: "instance_get (fst ?updated) ''info_id'' = info"
    "instance_has reg (fst ?updated) ''info_id'' = instance_has reg item ''info_id''"
    by (simp_all add: instance_update_instance model_columns_status spread_single spread_Nil
        instance_get_def map_of_set_key info_def instance_has_def has_key_set_key)
  have 1: "softDeleteStatus (new_Repository model fc pm fg og tm) = ARCHIVED"
    by (simp add: new_Repository_def)
  have 2: "tables db' (name m) =
      map (\<lambda>r. if same_key m pk r then set_key r ''status_id'' (status_value s) else r)
        (tables db (name m))"
    if "has_key (rawAttributes m) ''status_id''"
    using that unfolding entity
    by (simp add: instance_has_def instance_update_tables model_columns_status spread_single
        m_def [symmetric] pk_def [symmetric])
  have 3: "tables db' (name m) = filter (\<lambda>r. \<not> same_key m pk r) (tables db (name m))"
    if "\<not> instance_has reg item ''status_id''"
    using that unfolding entity
    by (simp add: instance_destroy_tables m_def [symmetric] pk_def [symmetric])
  have 4: "tables db' (name Info) = tables db (name Info)" if "s \<noteq> DELETED"
    using that other by (simp add: db')
  have 5: "tables db' (name Info) =
      map (\<lambda>r. if same_key Info info r
                then spread r ([(''deleted_at'', NOW)] @
                               (if truthy userId then [(''deleted_by_id'', userId)] else []) @
                               [(''id'', info)])
                else r)
        (tables db (name Info))"
    if "s = DELETED" "instance_has reg item ''info_id''" "truthy info"
      "list_ex (same_key Info info) (tables db (name Info))"
  proof -
    from that have "db' = snd (upsert Info (info_payload state ''deleted'' info) (snd ?updated))"
      by (simp add: db' item_info)
    moreover from that other
    have "list_ex (same_key Info (row_value (info_payload state ''deleted'' info)
        (primaryKeyAttribute Info))) (tables (snd ?updated) (name Info))"
      by (simp add: Info_key)
    ultimately show ?thesis
      using that other
      by (simp add: upsert_existing Info_key Info_columns)
        (simp add: info_payload_deleted userId_def)
  qed
  have 6: "\<exists>item'. fst (deleteItem eng reg state id' w) = Inr item'"
    by (simp add: deleteItem_unfold [OF g] deleteItem_transaction_unfold Let_def)
  from 1 2 3 4 5 6 show ?thesis by blast
qed

text \<open>
  Product 2 deleted by user 987 on a repository configured with \<open>DELETED\<close>: its status
  becomes 3 and its audit record 12 gets the deletion time and the actor.
\<close>

theorem deleteItem_soft_or_hard_witness:
  "tables (w_database (snd (deleteItem simple_engine example_registry user_987 (JNum 2)
      product_world_deleting))) ''Product'' =
     [product_row 1 ''one'' 11,
      [(''id'', JNum 2), (''name'', JStr ''two''), (''available'', JBool True),
       (''supply_network_id'', JNum 17), (''status_id'', JNum 3), (''info_id'', JNum 12)],
      product_row 3 ''three'' 13] \<and>
   tables (w_database (snd (deleteItem simple_engine example_registry user_987 (JNum 2)
      product_world_deleting))) ''Info'' =
     [[(''id'', JNum 11), (''created_at'', JStr ''2020-10-22'')],
      [(''id'', JNum 12), (''created_at'', JStr ''2020-10-22''), (''deleted_at'', NOW),
       (''deleted_by_id'', JNum 987)],
      [(''id'', JNum 13), (''created_at'', JStr ''2020-10-22'')]]"
proof -
  let ?item = "instance_of Product (product_row 2 ''two'' 12)"
  let ?m = "example_registry (instance_model ?item)"
  let ?w = "product_world_deleting"
  let ?db' = "w_database (snd (deleteItem simple_engine example_registry user_987 (JNum 2) ?w))"
  have g: "fst (getItem simple_engine example_registry user_987 (JNum 2) None ?w) = Inr ?item"
    by code_simp
  have n: "name ?m \<noteq> name Info"
    by code_simp
  note t = deleteItem_soft_or_hard [of simple_engine example_registry user_987 "JNum 2" ?w
      ?item, OF g n]
  have status: "has_key (rawAttributes ?m) ''status_id''"
    by code_simp
  have audit: "softDeleteStatus (w_repository ?w) = DELETED \<and>
      instance_has example_registry ?item ''info_id'' \<and>
      truthy (instance_get ?item ''info_id'') \<and>
      list_ex (same_key Info (instance_get ?item ''info_id''))
        (tables (w_database ?w) (name Info))"
    by code_simp
  have products: "map (\<lambda>r. if same_key ?m (instance_get ?item (primaryKeyAttribute ?m)) r
                       then set_key r ''status_id''
                              (status_value (softDeleteStatus (w_repository ?w)))
                       else r)
        (tables (w_database ?w) (name ?m)) =
     [product_row 1 ''one'' 11,
      [(''id'', JNum 2), (''name'', JStr ''two''), (''available'', JBool True),
       (''supply_network_id'', JNum 17), (''status_id'', JNum 3), (''info_id'', JNum 12)],
      product_row 3 ''three'' 13]"
    by code_simp
  have infos: "map (\<lambda>r. if same_key Info (instance_get ?item ''info_id'') r
                   then spread r ([(''deleted_at'', NOW)] @
                          (if truthy (get_prop (get_prop (getMetadata user_987) ''internal'') ''id'')
                           then [(''deleted_by_id'',
                                  get_prop (get_prop (getMetadata user_987) ''internal'') ''id'')]
                           else []) @
                          [(''id'', instance_get ?item ''info_id'')])
                   else r)
        (tables (w_database ?w) (name Info)) =
     [[(''id'', JNum 11), (''created_at'', JStr ''2020-10-22'')],
      [(''id'', JNum 12), (''created_at'', JStr ''2020-10-22''), (''deleted_at'', NOW),
       (''deleted_by_id'', JNum 987)],
      [(''id'', JNum 13), (''created_at'', JStr ''2020-10-22'')]]"
    by code_simp
  have names: "name ?m = ''Product''" "name Info = ''Info''"
    by code_simp+
  from t status have "tables ?db' (name ?m) =
      map (\<lambda>r. if same_key ?m (instance_get ?item (primaryKeyAttribute ?m)) r
                then set_key r ''status_id'' (status_value (softDeleteStatus (w_repository ?w)))
                else r)
        (tables (w_database ?w) (name ?m))"
    by blast
  then have a: "tables ?db' (name ?m) =
     [product_row 1 ''one'' 11,
      [(''id'', JNum 2), (''name'', JStr ''two''), (''available'', JBool True),
       (''supply_network_id'', JNum 17), (''status_id'', JNum 3), (''info_id'', JNum 12)],
      product_row 3 ''three'' 13]"
    by (rule trans) (rule products)
  from t audit have "tables ?db' (name Info) =
      map (\<lambda>r. if same_key Info (instance_get ?item ''info_id'') r
                   then spread r ([(''deleted_at'', NOW)] @
                          (if truthy (get_prop (get_prop (getMetadata user_987) ''internal'') ''id'')
                           then [(''deleted_by_id'',
                                  get_prop (get_prop (getMetadata user_987) ''internal'') ''id'')]
                           else []) @
                          [(''id'', instance_get ?item ''info_id'')])
                   else r)
        (tables (w_database ?w) (name Info))"
    by blast
  then have b: "tables ?db' (name Info) =
     [[(''id'', JNum 11), (''created_at'', JStr ''2020-10-22'')],
      [(''id'', JNum 12), (''created_at'', JStr ''2020-10-22''), (''deleted_at'', NOW),
       (''deleted_by_id'', JNum 987)],
      [(''id'', JNum 13), (''created_at'', JStr ''2020-10-22'')]]"
    by (rule trans) (rule infos)
  from a b show ?thesis
    by (simp only: names)
qed

text \<open>
  With the default configuration the status of product 2 becomes 2 and no audit record
  changes; price 1, which has no status, is removed.
\<close>

lemma deleteItem_archives_by_default:
  "tables (w_database (snd (deleteItem simple_engine example_registry user_987 (JNum 2)
      product_world))) ''Product'' =
     [product_row 1 ''one'' 11,
      [(''id'', JNum 2), (''name'', JStr ''two''), (''available'', JBool True),
       (''supply_network_id'', JNum 17), (''status_id'', JNum 2), (''info_id'', JNum 12)],
      product_row 3 ''three'' 13] \<and>
   tables (w_database (snd (deleteItem simple_engine example_registry user_987 (JNum 2)
      product_world))) ''Info'' = tables example_database ''Info''"
  by code_simp

lemma deleteItem_destroys_without_status:
  "tables (w_database (snd (deleteItem simple_engine example_registry user_987 (JNum 1)
      price_world))) ''Price'' =
     [[(''id'', JNum 2), (''amount'', JNum 7), (''product_id'', JNum 1)]]"
  by code_simp

section \<open>Writing, then fetching again\<close>

text \<open>
  \<open>createItem\<close> and \<open>updateItem\<close> step by step: the transaction, then \<open>getItem\<close> on the
  database the transaction left.
\<close>

lemma createItem_unfold:
  "createItem depth eng reg state attributes w =
     (case transaction (upsertEntity depth eng reg state (repo_model (w_repository w)) attributes)
             (w_database w) of
        (Inl e, db') \<Rightarrow> (Inl e, w\<lparr>w_database := db'\<rparr>)
      | (Inr item, db') \<Rightarrow>
          getItem eng reg state
            (instance_get item (primaryKeyAttribute (repo_model (w_repository w)))) None
            (w\<lparr>w_database := db'\<rparr>))"
  by (simp add: createItem_def io_bind_def on_database_def split: prod.split sum.split)

lemma updateItem_unfold:
  "updateItem depth eng reg state id' attributes w =
     (case transaction (upsertEntity depth eng reg state (repo_model (w_repository w))
               (JObj (spread [(primaryKeyAttribute (repo_model (w_repository w)), id')]
                        (entries attributes))))
             (w_database w) of
        (Inl e, db') \<Rightarrow> (Inl e, w\<lparr>w_database := db'\<rparr>)
      | (Inr item, db') \<Rightarrow>
          getItem eng reg state
            (instance_get item (primaryKeyAttribute (repo_model (w_repository w)))) None
            (w\<lparr>w_database := db'\<rparr>))"
  by (simp add: updateItem_def io_bind_def on_database_def split: prod.split sum.split)

lemma getItem_not_found:
  assumes "Repository_generateCondition reg state request (w_repository w) =
      (Inr condition, this')"
    and "findAll eng (repo_model this')
           (condition\<lparr>fo_where := Some (WhereAnd
              [(case fo_where condition of None \<Rightarrow> WhereUndefined | Some c \<Rightarrow> c),
               WhereField (primaryKeyAttribute (repo_model this')) id'])\<rparr>)
           (w_database w) = Inr []"
  shows "getItem eng reg state id' request w =
     (Inl (new_ApplicationError ITEM_NOT_FOUND None), w\<lparr>w_repository := this'\<rparr>)"
  using assms by (simp add: getItem_unfold)

lemma generateCondition_model:
  "repo_model (snd (Repository_generateCondition reg state request this)) = repo_model this"
proof -
  from generateCondition_repository [of reg state request this]
  obtain pm fg where "snd (Repository_generateCondition reg state request this) =
      this\<lparr>permissionsManager := pm, filtersGenerator := fg\<rparr>"
    by blast
  then show ?thesis by simp
qed

text \<open>
  Claim C9. When the transaction of \<open>createItem\<close> or \<open>updateItem\<close> commits with the
  entity \<open>item\<close> and the database \<open>db'\<close>, the operation is \<open>getItem\<close> with the same auth
  context on the primary key of \<open>item\<close>, run on \<open>db'\<close>. So when the merged condition
  of the caller, together with that primary key, selects no row of \<open>db'\<close>, the operation
  fails with the item-not-found error, and the database it leaves is \<open>db'\<close>: the write is
  kept.
\<close>

theorem write_then_refetch:
  fixes eng reg state w
  defines "model \<equiv> repo_model (w_repository w)"
  defines "pk \<equiv> primaryKeyAttribute model"
  shows
   "(transaction (upsertEntity depth eng reg state model attributes) (w_database w) =
       (Inr item, db') \<longrightarrow>
     createItem depth eng reg state attributes w =
       getItem eng reg state (instance_get item pk) None (w\<lparr>w_database := db'\<rparr>)) \<and>
    (transaction (upsertEntity depth eng reg state model
                    (JObj (spread [(pk, id')] (entries attributes)))) (w_database w) =
       (Inr item, db') \<longrightarrow>
     updateItem depth eng reg state id' attributes w =
       getItem eng reg state (instance_get item pk) None (w\<lparr>w_database := db'\<rparr>)) \<and>
    (Repository_generateCondition reg state None (w_repository w) = (Inr condition, this') \<and>
     findAll eng model
       (condition\<lparr>fo_where := Some (WhereAnd
          [(case fo_where condition of None \<Rightarrow> WhereUndefined | Some c \<Rightarrow> c),
           WhereField pk (instance_get item pk)])\<rparr>) db' = Inr [] \<longrightarrow>
     (transaction (upsertEntity depth eng reg state model attributes) (w_database w) =
        (Inr item, db') \<longrightarrow>
      createItem depth eng reg state attributes w =
        (Inl (new_ApplicationError ITEM_NOT_FOUND None),
         w\<lparr>w_repository := this', w_database := db'\<rparr>)) \<and>
     (transaction (upsertEntity depth eng reg state model
                     (JObj (spread [(pk, id')] (entries attributes)))) (w_database w) =
        (Inr item, db') \<longrightarrow>
      updateItem depth eng reg state id' attributes w =
        (Inl (new_ApplicationError ITEM_NOT_FOUND None),
         w\<lparr>w_repository := this', w_database := db'\<rparr>)))"
proof -
  have refetch: "getItem eng reg state (instance_get item pk) None (w\<lparr>w_database := db'\<rparr>) =
      (Inl (new_ApplicationError ITEM_NOT_FOUND None),
       w\<lparr>w_repository := this', w_database := db'\<rparr>)"
    if c: "Repository_generateCondition reg state None (w_repository w) = (Inr condition, this')"
      and f: "findAll eng model
       (condition\<lparr>fo_where := Some (WhereAnd
          [(case fo_where condition of None \<Rightarrow> WhereUndefined | Some c \<Rightarrow> c),
           WhereField pk (instance_get item pk)])\<rparr>) db' = Inr []"
  proof -
    from c generateCondition_model [of reg state None "w_repository w"]
    have "repo_model this' = model"
      by (simp add: model_def)
    with c f show ?thesis
      by (simp add: getItem_not_found [where condition = condition and this' = this'] pk_def)
  qed
  show ?thesis
    using refetch by (simp add: createItem_unfold updateItem_unfold model_def pk_def)
qed

text \<open>
  A caller restricted to market place 17 creates a campaign in market place 20, and
  moves campaign 1 to market place 20: both calls fail with the item-not-found error, the
  new row is in the table and campaign 1 has moved.
\<close>

theorem write_then_refetch_witness:
  "fst (createItem 1 simple_engine example_registry market_place_17
          (JObj [(''name'', JStr ''winter''), (''market_place_id'', JNum 20)]) campaign_world) =
     Inl (ApplicationError 404 ''Not found''
            ''The item does not exist or you do not have access.'' None) \<and>
   tables (w_database (snd (createItem 1 simple_engine example_registry market_place_17
          (JObj [(''name'', JStr ''winter''), (''market_place_id'', JNum 20)]) campaign_world)))
     ''Campaign'' =
     [[(''id'', JNum 1), (''name'', JStr ''spring''), (''market_place_id'', JNum 17)],
      [(''id'', JNum 2), (''name'', JStr ''autumn''), (''market_place_id'', JNum 20)],
      [(''name'', JStr ''winter''), (''market_place_id'', JNum 20), (''id'', JNum 100)]] \<and>
   fst (updateItem 1 simple_engine example_registry market_place_17 (JNum 1)
          (JObj [(''market_place_id'', JNum 20)]) campaign_world) =
     Inl (ApplicationError 404 ''Not found''
            ''The item does not exist or you do not have access.'' None) \<and>
   tables (w_database (snd (updateItem 1 simple_engine example_registry market_place_17 (JNum 1)
          (JObj [(''market_place_id'', JNum 20)]) campaign_world)))
     ''Campaign'' =
     [[(''id'', JNum 1), (''name'', JStr ''spring''), (''market_place_id'', JNum 20)],
      [(''id'', JNum 2), (''name'', JStr ''autumn''), (''market_place_id'', JNum 20)]]"
proof -
  let ?w = "campaign_world"
  let ?model = "repo_model (w_repository ?w)"
  let ?pk = "primaryKeyAttribute ?model"
  let ?winter = "JObj [(''name'', JStr ''winter''), (''market_place_id'', JNum 20)]"
  let ?move = "JObj [(''market_place_id'', JNum 20)]"
  let ?created = "instance_of Campaign
      [(''name'', JStr ''winter''), (''market_place_id'', JNum 20), (''id'', JNum 100)]"
  let ?updated = "instance_of Campaign
      [(''id'', JNum 1), (''name'', JStr ''spring''), (''market_place_id'', JNum 20)]"
  let ?condition = "empty_options\<lparr>fo_where := Some (WhereAnd
      [WhereOp ''market_place_id'' (Some (Op ''in'')) (JArr [JNum 17])]),
      fo_include := Some []\<rparr>"
  define C where "C = transaction (upsertEntity 1 simple_engine example_registry market_place_17
      ?model ?winter) (w_database ?w)"
  define U where "U = transaction (upsertEntity 1 simple_engine example_registry market_place_17
      ?model (JObj (spread [(?pk, JNum 1)] (entries ?move)))) (w_database ?w)"
  define this' where "this' = snd (Repository_generateCondition example_registry market_place_17
      None (w_repository ?w))"
  have "fst C = Inr ?created"
    unfolding C_def by code_simp
  then have c: "transaction (upsertEntity 1 simple_engine example_registry market_place_17
      ?model ?winter) (w_database ?w) = (Inr ?created, snd C)"
    unfolding C_def by (simp add: prod_eq_iff)
  have "fst U = Inr ?updated"
    unfolding U_def by code_simp
  then have u: "transaction (upsertEntity 1 simple_engine example_registry market_place_17
      ?model (JObj (spread [(?pk, JNum 1)] (entries ?move)))) (w_database ?w) =
      (Inr ?updated, snd U)"
    unfolding U_def by (simp add: prod_eq_iff)
  have "fst (Repository_generateCondition example_registry market_place_17 None
      (w_repository ?w)) = Inr ?condition"
    by code_simp
  then have g: "Repository_generateCondition example_registry market_place_17 None
      (w_repository ?w) = (Inr ?condition, this')"
    unfolding this'_def by (simp add: prod_eq_iff)
  have fc: "findAll simple_engine ?model
       (?condition\<lparr>fo_where := Some (WhereAnd
          [(case fo_where ?condition of None \<Rightarrow> WhereUndefined | Some c \<Rightarrow> c),
           WhereField ?pk (instance_get ?created ?pk)])\<rparr>) (snd C) = Inr []"
    unfolding C_def by code_simp
  have fu: "findAll simple_engine ?model
       (?condition\<lparr>fo_where := Some (WhereAnd
          [(case fo_where ?condition of None \<Rightarrow> WhereUndefined | Some c \<Rightarrow> c),
           WhereField ?pk (instance_get ?updated ?pk)])\<rparr>) (snd U) = Inr []"
    unfolding U_def by code_simp
  have rows: "tables (snd C) ''Campaign'' =
     [[(''id'', JNum 1), (''name'', JStr ''spring''), (''market_place_id'', JNum 17)],
      [(''id'', JNum 2), (''name'', JStr ''autumn''), (''market_place_id'', JNum 20)],
      [(''name'', JStr ''winter''), (''market_place_id'', JNum 20), (''id'', JNum 100)]]"
    "tables (snd U) ''Campaign'' =
     [[(''id'', JNum 1), (''name'', JStr ''spring''), (''market_place_id'', JNum 20)],
      [(''id'', JNum 2), (''name'', JStr ''autumn''), (''market_place_id'', JNum 20)]]"
    unfolding C_def U_def by code_simp+
  have e: "new_ApplicationError ITEM_NOT_FOUND None =
      ApplicationError 404 ''Not found''
        ''The item does not exist or you do not have access.'' None"
    by code_simp
  from write_then_refetch [where eng = simple_engine and reg = example_registry
      and state = market_place_17 and w = ?w and depth = 1 and attributes = ?winter
      and item = ?created and db' = "snd C" and condition = ?condition and this' = this']
    g fc c
  have "createItem 1 simple_engine example_registry market_place_17 ?winter ?w =
      (Inl (new_ApplicationError ITEM_NOT_FOUND None),
       ?w\<lparr>w_repository := this', w_database := snd C\<rparr>)"
    by blast
  moreover
  from write_then_refetch [where eng = simple_engine and reg = example_registry
      and state = market_place_17 and w = ?w and depth = 1 and attributes = ?move
      and id' = "JNum 1" and item = ?updated and db' = "snd U" and condition = ?condition
      and this' = this']
    g fu u
  have "updateItem 1 simple_engine example_registry market_place_17 (JNum 1) ?move ?w =
      (Inl (new_ApplicationError ITEM_NOT_FOUND None),
       ?w\<lparr>w_repository := this', w_database := snd U\<rparr>)"
    by blast
  ultimately show ?thesis
    by (simp add: rows e)
qed

text \<open>
  The same caller creating a campaign in market place 17 gets the created campaign back.
\<close>

lemma createItem_visible:
  "fst (createItem 1 simple_engine example_registry market_place_17
          (JObj [(''name'', JStr ''winter''), (''market_place_id'', JNum 17)]) campaign_world) =
     Inr (instance_of Campaign
            [(''name'', JStr ''winter''), (''market_place_id'', JNum 17), (''id'', JNum 100)])"
  by code_simp

section \<open>Replacing a collection\<close>

lemma model_columns_single:
  "has_key (rawAttributes m) k \<Longrightarrow> v \<noteq> JUndefined \<Longrightarrow> model_columns m [(k, v)] = [(k, v)]"
  by (simp add: model_columns_def)




























text \<open>
  The foreign key of a note is nullable: updating the notes of product 1 to \<open>[{id: 2}]\<close>
  unlinks note 1 and links note 2 again. An order without primary key is created next to
  the two orders that were marked as deleted.
\<close>

lemma updateItem_relinks_notes:
  "tables (w_database (snd (updateItem 2 simple_engine example_registry user_987 (JNum 1)
          (JObj [(''notes'', JArr [JObj [(''id'', JNum 2)]])]) product_world))) ''Note'' =
     [[(''id'', JNum 1), (''text'', JStr ''a''), (''product_id'', JNull)],
      [(''id'', JNum 2), (''text'', JStr ''b''), (''product_id'', JNum 1)]]"
  by code_simp

lemma updateItem_creates_orders:
  "tables (w_database (snd (updateItem 2 simple_engine example_registry user_987 (JNum 1)
          (JObj [(''orders'', JArr [JObj [(''name'', JStr ''third'')]])]) product_world)))
     ''Order'' =
     [[(''id'', JNum 1), (''name'', JStr ''first''), (''product_id'', JNum 1),
       (''status_id'', JNum 3)],
      [(''id'', JNum 2), (''name'', JStr ''second''), (''product_id'', JNum 1),
       (''status_id'', JNum 3)],
      [(''name'', JStr ''third''), (''product_id'', JNum 1), (''id'', JNum 100),
       (''status_id'', JNum 1)]]"
  by code_simp

end
